theory Spec2Isabelle
  imports Complex_Main
begin

section \<open>The URL detector of \<^verbatim>\<open>model.py\<close>\<close>

text \<open>
  \<^verbatim>\<open>model.py\<close> is a thin layer over Keras 2 (it uses \<^verbatim>\<open>epochs=\<close>, \<^verbatim>\<open>merge.Concatenate\<close> and
  the Keras 1 spellings \<^verbatim>\<open>nb_filter\<close>, \<^verbatim>\<open>Model(input=, output=)\<close> that Keras 2.0 to 2.3 still
  accept). The class \<^verbatim>\<open>UrlDetector\<close> is embedded function by function; the library calls it
  makes (\<^verbatim>\<open>pad_sequences\<close>, \<^verbatim>\<open>Sequential\<close>/\<^verbatim>\<open>Model\<close> and their \<^verbatim>\<open>fit\<close>, \<^verbatim>\<open>evaluate\<close>,
  \<^verbatim>\<open>predict_proba\<close>, the backend functions \<^verbatim>\<open>K.clip\<close>, \<^verbatim>\<open>K.round\<close>, \<^verbatim>\<open>K.sum\<close>, \<^verbatim>\<open>K.epsilon\<close>)
  are embedded after the library's own code, with the keyword defaults the call sites leave
  implicit written out. Tensors of floats are lists of reals. The arithmetic on them is exact
  except in the second embedding of the F1 metric, \<open>f1_float32\<close>, which rounds the result of
  every operation to IEEE binary32, the \<^verbatim>\<open>floatx\<close> Keras computes in by default.
\<close>

subsection \<open>Errors\<close>

text \<open>
  Every exception that can leave a method of \<^verbatim>\<open>UrlDetector\<close>:
  \<^item> \<open>BroadcastError\<close>: numpy's \<^verbatim>\<open>ValueError: could not broadcast input array\<close>, from the
    slice assignment in \<^verbatim>\<open>pad_sequences\<close>;
  \<^item> \<open>ShapeMismatch\<close>: Keras's \<^verbatim>\<open>ValueError\<close> when inputs and targets have different
    numbers of samples, or the two tensors of a metric differ in shape;
  \<^item> \<open>NotCompiled\<close>: Keras's \<^verbatim>\<open>RuntimeError\<close> (the model needs to be compiled before being used);
  \<^item> \<open>EmptyModel\<close>: an empty \<^verbatim>\<open>Sequential()\<close> cannot be built for prediction;
  \<^item> \<open>NoSuchMethod\<close>: Python's \<^verbatim>\<open>AttributeError\<close>;
  \<^item> \<open>UnpackError\<close>: Python's \<^verbatim>\<open>ValueError\<close>/\<^verbatim>\<open>TypeError\<close> of a tuple assignment whose right
    side does not hold exactly as many values as there are names on the left;
  \<^item> \<open>OSError\<close>: what \<^verbatim>\<open>os.makedirs\<close> raises (\<^verbatim>\<open>FileNotFoundError\<close> for the empty path,
    \<^verbatim>\<open>FileExistsError\<close>, \<^verbatim>\<open>PermissionError\<close>; all are subclasses of \<^verbatim>\<open>OSError\<close>).
\<close>

datatype error =
    BroadcastError
  | ShapeMismatch
  | NotCompiled
  | EmptyModel
  | NoSuchMethod
  | UnpackError
  | OSError

subsection \<open>The layer graph\<close>

datatype activation = Sigmoid | Relu

text \<open>
  The layers the two builders use, with the arguments they are given.
  \<open>Convolution1D nb_filter filter_length\<close> is always called with \<^verbatim>\<open>border_mode='same'\<close>,
  \<^verbatim>\<open>activation='relu'\<close>, \<^verbatim>\<open>subsample_length=1\<close>; \<open>Lambda_sum_1d n\<close> is
  \<^verbatim>\<open>Lambda(self._sum_1d, output_shape=(n,))\<close>; \<open>Concatenate bs\<close> is \<^verbatim>\<open>merge.Concatenate()\<close>
  applied to the outputs of the sub-models \<open>bs\<close>, each fed the same tensor.
\<close>

datatype layer =
    Input nat
  | Embedding nat nat nat
  | Flatten
  | Dense nat activation
  | Convolution1D nat nat
  | BatchNormalization
  | Lambda_sum_1d nat
  | Dropout real
  | Concatenate "layer list list"

text \<open>
  The two Keras classes \<^verbatim>\<open>self.model\<close> can be an instance of: \<^verbatim>\<open>keras.models.Sequential\<close> and
  the functional \<^verbatim>\<open>keras.models.Model\<close>.
\<close>

datatype model_class = Sequential | Model

text \<open>
  The arguments of \<^verbatim>\<open>compile\<close>. A metric is entered by the name Keras reports it under:
  \<^verbatim>\<open>'acc'\<close> for the string \<^verbatim>\<open>'acc'\<close>, and \<^verbatim>\<open>'f1'\<close> (the function's \<^verbatim>\<open>__name__\<close>) for
  \<^verbatim>\<open>self.f1\<close>.
\<close>

record compile_args =
  optimizer :: string
  loss :: string
  metrics :: "string list"

type_synonym weights = "real list"

record keras_model =
  klass :: model_class
  layers :: "layer list"
  compiled :: "compile_args option"
  weights :: weights

record UrlDetector =
  max_length :: nat
  vocab_size :: nat
  model :: keras_model

subsection \<open>The tensor backend\<close>

text \<open>
  What Keras computes with a network is opaque to \<^verbatim>\<open>model.py\<close> and is a parameter here:
  \<^item> \<open>initial_weights ls\<close>: the weights the layers \<open>ls\<close> are created with;
  \<^item> \<open>pre_activation ls w x\<close>: the input of the activation of the last layer, in inference
    mode, for the padded document \<open>x\<close>;
  \<^item> \<open>train_epoch ls c w samples\<close>: the weights after one epoch of the optimizer on \<open>samples\<close>;
  \<^item> \<open>train_scalar ls c w samples name\<close>: the running average of the loss or metric \<open>name\<close>
    over that epoch;
  \<^item> \<open>test_scalar ls c w samples name\<close>: the loss or metric \<open>name\<close> on \<open>samples\<close>, in test mode.
\<close>

type_synonym sample = "int list \<times> real"

record backend =
  initial_weights :: "layer list \<Rightarrow> weights"
  pre_activation :: "layer list \<Rightarrow> weights \<Rightarrow> int list \<Rightarrow> real"
  train_epoch :: "layer list \<Rightarrow> compile_args \<Rightarrow> weights \<Rightarrow> sample list \<Rightarrow> weights"
  train_scalar :: "layer list \<Rightarrow> compile_args \<Rightarrow> weights \<Rightarrow> sample list \<Rightarrow> string \<Rightarrow> real"
  test_scalar :: "layer list \<Rightarrow> compile_args \<Rightarrow> weights \<Rightarrow> sample list \<Rightarrow> string \<Rightarrow> real"

text \<open>
  The simplest backend, for running the methods on concrete inputs: no weights, every
  pre-activation and every scalar 0.
\<close>

definition zero_backend :: backend where
  "zero_backend =
     \<lparr>initial_weights = (\<lambda>ls. []),
      pre_activation = (\<lambda>ls w x. 0),
      train_epoch = (\<lambda>ls c w samples. w),
      train_scalar = (\<lambda>ls c w samples name. 0),
      test_scalar = (\<lambda>ls c w samples name. 0)\<rparr>"

text \<open>
  A backend that makes the samples behind a scalar visible: every scalar is the number of
  samples it was measured on.
\<close>

definition counting_backend :: backend where
  "counting_backend =
     \<lparr>initial_weights = (\<lambda>ls. []),
      pre_activation = (\<lambda>ls w x. 0),
      train_epoch = (\<lambda>ls c w samples. w),
      train_scalar = (\<lambda>ls c w samples name. real (length samples)),
      test_scalar = (\<lambda>ls c w samples name. real (length samples))\<rparr>"

subsection \<open>Construction\<close>

text \<open>\<^verbatim>\<open>Sequential()\<close>: no layers, not compiled.\<close>

definition Sequential_empty :: keras_model where
  "Sequential_empty = \<lparr>klass = Sequential, layers = [], compiled = None, weights = []\<rparr>"

text \<open>
  \<^verbatim>\<open>_build_simple_nn\<close> (lines 51 to 59): embedding into 32 dimensions, flatten, one sigmoid
  unit; compiled with \<^verbatim>\<open>metrics=['acc']\<close>.
\<close>

definition simple_nn_layers :: "UrlDetector \<Rightarrow> layer list" where
  "simple_nn_layers self =
     [Embedding (vocab_size self) 32 (max_length self), Flatten, Dense 1 Sigmoid]"

definition build_simple_nn :: "backend \<Rightarrow> UrlDetector \<Rightarrow> UrlDetector" where
  "build_simple_nn B self =
     self\<lparr>model :=
       \<lparr>klass = Sequential,
        layers = simple_nn_layers self,
        compiled = Some \<lparr>optimizer = ''adam'', loss = ''binary_crossentropy'', metrics = [''acc'']\<rparr>,
        weights = initial_weights B (simple_nn_layers self)\<rparr>\<rparr>"

text \<open>\<^verbatim>\<open>_get_complete_conv_layer\<close> (lines 61 to 74).\<close>

definition get_complete_conv_layer :: "nat \<Rightarrow> nat \<Rightarrow> layer list" where
  "get_complete_conv_layer filter_length nb_filter =
     [Convolution1D nb_filter filter_length, BatchNormalization, Lambda_sum_1d nb_filter,
      Dropout (1 / 2)]"

text \<open>
  \<^verbatim>\<open>_build_big_conv_nn\<close> (lines 81 to 119): the model is built with the functional API,
  \<^verbatim>\<open>self.model = Model(input=main_input, output=output)\<close>, and compiled with
  \<^verbatim>\<open>metrics=['acc', self.f1]\<close>.
\<close>

definition big_conv_nn_layers :: "UrlDetector \<Rightarrow> layer list" where
  "big_conv_nn_layers self =
     [Input (max_length self),
      Embedding (vocab_size self) 32 (max_length self),
      Concatenate [get_complete_conv_layer 2 256, get_complete_conv_layer 3 256,
                   get_complete_conv_layer 4 256, get_complete_conv_layer 5 256],
      BatchNormalization,
      Dense 1024 Relu, BatchNormalization, Dropout (1 / 2),
      Dense 1024 Relu, BatchNormalization, Dropout (1 / 2),
      Dense 1024 Relu, BatchNormalization, Dropout (1 / 2),
      Dense 1 Sigmoid]"

definition build_big_conv_nn :: "backend \<Rightarrow> string \<Rightarrow> UrlDetector \<Rightarrow> UrlDetector" where
  "build_big_conv_nn B opt self =
     self\<lparr>model :=
       \<lparr>klass = Model,
        layers = big_conv_nn_layers self,
        compiled = Some \<lparr>optimizer = opt, loss = ''binary_crossentropy'', metrics = [''acc'', ''f1'']\<rparr>,
        weights = initial_weights B (big_conv_nn_layers self)\<rparr>\<rparr>"

text \<open>
  \<^verbatim>\<open>build_model\<close> (lines 37 to 49): an \<^verbatim>\<open>if\<close>/\<^verbatim>\<open>elif\<close> with no \<^verbatim>\<open>else\<close>; a name that matches
  neither string falls through and the method returns with \<^verbatim>\<open>self\<close> untouched.
\<close>

definition build_model :: "backend \<Rightarrow> string \<Rightarrow> UrlDetector \<Rightarrow> UrlDetector" where
  "build_model B name self =
     (if name = ''simple_nn'' then build_simple_nn B self
      else if name = ''big_conv_nn'' then build_big_conv_nn B ''adam'' self
      else self)"

text \<open>\<^verbatim>\<open>__init__\<close> (lines 32 to 35); the defaults are \<^verbatim>\<open>"simple_nn"\<close>, 87 and 200.\<close>

definition UrlDetector_init :: "backend \<Rightarrow> string \<Rightarrow> nat \<Rightarrow> nat \<Rightarrow> UrlDetector" where
  "UrlDetector_init B name vocab maxlen =
     build_model B name \<lparr>max_length = maxlen, vocab_size = vocab, model = Sequential_empty\<rparr>"

subsection \<open>Padding\<close>

text \<open>
  Keras's \<^verbatim>\<open>pad_sequences(sequences, maxlen=None, dtype='int32', padding='pre',
  truncating='pre', value=0.)\<close>. For each sequence \<^verbatim>\<open>s\<close> it runs
  \<^verbatim>\<open>
  x = (np.ones((num_samples, maxlen)) * value).astype(dtype)
  for idx, s in enumerate(sequences):
      if not len(s): continue
      if truncating == 'pre':    trunc = s[-maxlen:]
      elif truncating == 'post': trunc = s[:maxlen]
      if padding == 'post':  x[idx, :len(trunc)] = trunc
      elif padding == 'pre': x[idx, -len(trunc):] = trunc
  \<close>
  Documents are lists of character codes, far inside \<^verbatim>\<open>int32\<close>, so the cast is the identity.
\<close>

datatype side = Pre | Post

text \<open>
  The Python slices \<^verbatim>\<open>s[-maxlen:]\<close> and \<^verbatim>\<open>s[:maxlen]\<close>. \<^verbatim>\<open>s[-0:]\<close> is \<^verbatim>\<open>s[0:]\<close>, the whole
  list; for \<open>maxlen \<ge> length s\<close> the slice \<^verbatim>\<open>s[-maxlen:]\<close> is the whole list too.
\<close>

definition truncate_seq :: "nat \<Rightarrow> side \<Rightarrow> int list \<Rightarrow> int list" where
  "truncate_seq maxlen truncating s =
     (case truncating of
        Pre \<Rightarrow> (if maxlen = 0 then s else drop (length s - maxlen) s)
      | Post \<Rightarrow> take maxlen s)"

text \<open>
  One row of the result. The target slice of the assignment holds
  \<open>min (length trunc) maxlen\<close> cells. When \<open>trunc\<close> is longer than that (only for
  \<open>maxlen = 0\<close> with \<^verbatim>\<open>truncating='pre'\<close>), numpy broadcasts a source of one element over the
  empty target and raises for a longer source.
\<close>

definition pad_row :: "nat \<Rightarrow> side \<Rightarrow> side \<Rightarrow> int \<Rightarrow> int list \<Rightarrow> error + int list" where
  "pad_row maxlen padding truncating val s =
     (if s = [] then Inr (replicate maxlen val)
      else
        let trunc = truncate_seq maxlen truncating s in
        if length trunc \<le> maxlen then
          (case padding of
             Post \<Rightarrow> Inr (trunc @ replicate (maxlen - length trunc) val)
           | Pre \<Rightarrow> Inr (replicate (maxlen - length trunc) val @ trunc))
        else if length trunc = 1 then Inr (replicate maxlen val)
        else Inl BroadcastError)"

text \<open>The loop over the sequences: the first row that raises ends the call.\<close>

fun pad_sequences :: "nat \<Rightarrow> side \<Rightarrow> side \<Rightarrow> int \<Rightarrow> int list list \<Rightarrow> error + int list list" where
  "pad_sequences maxlen padding truncating val [] = Inr []"
| "pad_sequences maxlen padding truncating val (s # ss) =
     (case pad_row maxlen padding truncating val s of
        Inl e \<Rightarrow> Inl e
      | Inr r \<Rightarrow>
          (case pad_sequences maxlen padding truncating val ss of
             Inl e \<Rightarrow> Inl e
           | Inr rs \<Rightarrow> Inr (r # rs)))"

text \<open>
  \<^verbatim>\<open>_get_padded_docs\<close> (lines 121 to 124):
  \<^verbatim>\<open>pad_sequences(encoded_docs, maxlen=self.max_length, padding='post')\<close>. The call passes
  \<^verbatim>\<open>padding\<close> and leaves \<^verbatim>\<open>truncating\<close> and \<^verbatim>\<open>value\<close> at their defaults \<^verbatim>\<open>'pre'\<close> and 0.
\<close>

definition get_padded_docs :: "UrlDetector \<Rightarrow> int list list \<Rightarrow> error + int list list" where
  "get_padded_docs self encoded_docs = pad_sequences (max_length self) Post Pre 0 encoded_docs"

subsection \<open>The F1 metric\<close>

text \<open>
  The backend functions \<^verbatim>\<open>f1\<close> calls, on a tensor held as a list of reals.
  \<^verbatim>\<open>K.epsilon()\<close> is Keras's fuzz factor, \<^verbatim>\<open>1e-07\<close> unless reconfigured. \<^verbatim>\<open>K.clip(x, lo, hi)\<close>
  is \<^verbatim>\<open>minimum(maximum(x, lo), hi)\<close>. \<^verbatim>\<open>K.round\<close> rounds element-wise, a half to the even
  neighbour (both the TensorFlow and the Theano backend). \<^verbatim>\<open>K.sum\<close> with no axis adds all
  elements.
\<close>

definition K_epsilon :: real where
  "K_epsilon = 1 / 10000000"

definition K_clip :: "real list \<Rightarrow> real \<Rightarrow> real \<Rightarrow> real list" where
  "K_clip x lo hi = map (\<lambda>v. min (max v lo) hi) x"

definition round_half_even :: "real \<Rightarrow> real" where
  "round_half_even v =
     (let f = \<lfloor>v\<rfloor>; d = v - of_int f in
      if d < 1 / 2 then of_int f
      else if 1 / 2 < d then of_int (f + 1)
      else if even f then of_int f else of_int (f + 1))"

definition K_round :: "real list \<Rightarrow> real list" where
  "K_round x = map round_half_even x"

definition K_sum :: "real list \<Rightarrow> real" where
  "K_sum x = sum_list x"

text \<open>The element-wise product \<^verbatim>\<open>y_true * y_pred\<close> of two tensors of one shape.\<close>

definition tensor_mul :: "real list \<Rightarrow> real list \<Rightarrow> real list" where
  "tensor_mul a b = map2 (\<lambda>u v. u * v) a b"

text \<open>The three sums of \<^verbatim>\<open>recall\<close> and \<^verbatim>\<open>precision\<close> (lines 193, 194, 206, 207).\<close>

definition true_positives :: "real list \<Rightarrow> real list \<Rightarrow> real" where
  "true_positives y_true y_pred = K_sum (K_round (K_clip (tensor_mul y_true y_pred) 0 1))"

definition possible_positives :: "real list \<Rightarrow> real" where
  "possible_positives y_true = K_sum (K_round (K_clip y_true 0 1))"

definition predicted_positives :: "real list \<Rightarrow> real" where
  "predicted_positives y_pred = K_sum (K_round (K_clip y_pred 0 1))"

text \<open>The inner functions \<^verbatim>\<open>recall\<close> (lines 185 to 196) and \<^verbatim>\<open>precision\<close> (lines 198 to 209).\<close>

definition recall :: "real list \<Rightarrow> real list \<Rightarrow> real" where
  "recall y_true y_pred =
     true_positives y_true y_pred / (possible_positives y_true + K_epsilon)"

definition precision :: "real list \<Rightarrow> real list \<Rightarrow> real" where
  "precision y_true y_pred =
     true_positives y_true y_pred / (predicted_positives y_pred + K_epsilon)"

text \<open>
  \<^verbatim>\<open>f1\<close> (lines 181 to 213). Keras hands a metric two tensors of one shape; lists of
  different lengths are a shape error of the product. This embedding computes in exact
  arithmetic; \<open>f1_float32\<close> below rounds every operation as the program does. The two agree
  on the three sums, which are exact in binary32.
\<close>

definition f1 :: "real list \<Rightarrow> real list \<Rightarrow> error + real" where
  "f1 y_true y_pred =
     (if length y_true \<noteq> length y_pred then Inl ShapeMismatch
      else
        let p = precision y_true y_pred; r = recall y_true y_pred in
        Inr (2 * ((p * r) / (p + r + K_epsilon))))"

text \<open>
  The metric as the specification words it: a prediction counts as positive when it exceeds
  one half after clipping to the unit interval; \<open>TP\<close>, \<open>FP\<close> and \<open>FN\<close> count the samples that
  are positive and predicted so, negative and predicted positive, positive and predicted
  negative.
\<close>

definition spec_positive :: "real \<Rightarrow> bool" where
  "spec_positive p \<longleftrightarrow> 1 / 2 < min (max p 0) 1"

definition spec_TP :: "real list \<Rightarrow> real list \<Rightarrow> nat" where
  "spec_TP y_true y_pred =
     length (filter (\<lambda>(t, p). t = 1 \<and> spec_positive p) (zip y_true y_pred))"






text \<open>A batch of labels is binary: every label is 0 or 1.\<close>

definition binary_labels :: "real list \<Rightarrow> bool" where
  "binary_labels y_true \<longleftrightarrow> list_all (\<lambda>t. t = 0 \<or> t = 1) y_true"

subsection \<open>The F1 metric in binary32\<close>

text \<open>
  Keras computes in \<^verbatim>\<open>floatx = 'float32'\<close> unless reconfigured: \<^verbatim>\<open>y_true\<close> and \<^verbatim>\<open>y_pred\<close>
  are tensors of binary32 numbers and every operation of \<^verbatim>\<open>f1\<close> returns the binary32 number
  nearest to its exact result, a tie going to the even significand.

  \<open>fl32 x\<close> is that rounding, for \<open>\<bar>x\<bar>\<close> below the overflow threshold \<open>2 ^ 128\<close> (the values
  of the metric are bounded by the batch size): the spacing of binary32 numbers around \<open>x\<close>
  is \<open>2 ^ (e - 23)\<close> for \<open>2 ^ e \<le> \<bar>x\<bar> < 2 ^ (e + 1)\<close>, and \<open>2 ^ (- 149)\<close> for subnormal \<open>x\<close>.
\<close>

definition fl32 :: "real \<Rightarrow> real" where
  "fl32 x =
     (if x = 0 then 0
      else
        let q = 2 powi (max (\<lfloor>log 2 \<bar>x\<bar>\<rfloor> - 23) (- 149))
        in round_half_even (x / q) * q)"

text \<open>
  \<^verbatim>\<open>K.sum\<close> accumulates in binary32. The order of the reduction is the backend's choice; it
  does not matter for sums of zeros and ones below \<open>2 ^ 24\<close>, whose partial sums are all
  exact. \<^verbatim>\<open>K.epsilon()\<close> is the Python float \<^verbatim>\<open>1e-07\<close>, converted to binary32 when it is
  added to a tensor.
\<close>

definition sum32 :: "real list \<Rightarrow> real" where
  "sum32 x = foldl (\<lambda>a v. fl32 (a + v)) 0 x"

definition tensor_mul32 :: "real list \<Rightarrow> real list \<Rightarrow> real list" where
  "tensor_mul32 a b = map2 (\<lambda>u v. fl32 (u * v)) a b"

definition K_epsilon32 :: real where
  "K_epsilon32 = fl32 K_epsilon"

definition true_positives32 :: "real list \<Rightarrow> real list \<Rightarrow> real" where
  "true_positives32 y_true y_pred = sum32 (K_round (K_clip (tensor_mul32 y_true y_pred) 0 1))"

definition possible_positives32 :: "real list \<Rightarrow> real" where
  "possible_positives32 y_true = sum32 (K_round (K_clip y_true 0 1))"

definition predicted_positives32 :: "real list \<Rightarrow> real" where
  "predicted_positives32 y_pred = sum32 (K_round (K_clip y_pred 0 1))"

definition recall32 :: "real list \<Rightarrow> real list \<Rightarrow> real" where
  "recall32 y_true y_pred =
     fl32 (true_positives32 y_true y_pred / fl32 (possible_positives32 y_true + K_epsilon32))"

definition precision32 :: "real list \<Rightarrow> real list \<Rightarrow> real" where
  "precision32 y_true y_pred =
     fl32 (true_positives32 y_true y_pred / fl32 (predicted_positives32 y_pred + K_epsilon32))"

definition f1_float32 :: "real list \<Rightarrow> real list \<Rightarrow> error + real" where
  "f1_float32 y_true y_pred =
     (if length y_true \<noteq> length y_pred then Inl ShapeMismatch
      else
        let p = precision32 y_true y_pred; r = recall32 y_true y_pred in
        Inr (fl32 (2 * fl32 (fl32 (p * r) / fl32 (fl32 (p + r) + K_epsilon32)))))"

subsection \<open>Inference\<close>

definition activate :: "activation \<Rightarrow> real \<Rightarrow> real" where
  "activate a v = (case a of Sigmoid \<Rightarrow> 1 / (1 + exp (- v)) | Relu \<Rightarrow> max 0 v)"

text \<open>The activation of the output layer, when the graph ends in a \<open>Dense\<close> layer.\<close>

definition final_activation :: "layer list \<Rightarrow> activation option" where
  "final_activation ls =
     (case rev ls of
        Dense n a # rest \<Rightarrow> Some a
      | other \<Rightarrow> None)"

definition forward :: "backend \<Rightarrow> keras_model \<Rightarrow> int list \<Rightarrow> real" where
  "forward B km x =
     (case final_activation (layers km) of
        Some a \<Rightarrow> activate a (pre_activation B (layers km) (weights km) x)
      | None \<Rightarrow> pre_activation B (layers km) (weights km) x)"

text \<open>
  \<^verbatim>\<open>self.model.predict_proba(padded_docs)\<close>. Keras defines \<^verbatim>\<open>predict_proba\<close> (and
  \<^verbatim>\<open>predict_classes\<close>) on \<^verbatim>\<open>Sequential\<close> only; the functional \<^verbatim>\<open>Model\<close> has \<^verbatim>\<open>predict\<close> but
  no \<^verbatim>\<open>predict_proba\<close>, so the attribute lookup raises. On a \<^verbatim>\<open>Sequential\<close> the method
  returns \<^verbatim>\<open>self.predict(x)\<close>, one row per row of \<^verbatim>\<open>x\<close>, after building the model, which
  fails when no layer was added. Only the returned value is modelled: the predict function
  Keras compiles and caches on the model at the first call is not part of \<open>keras_model\<close>.
\<close>

definition keras_predict_proba :: "backend \<Rightarrow> keras_model \<Rightarrow> int list list \<Rightarrow> error + real list" where
  "keras_predict_proba B km x =
     (case klass km of
        Model \<Rightarrow> Inl NoSuchMethod
      | Sequential \<Rightarrow>
          if layers km = [] then Inl EmptyModel else Inr (map (forward B km) x))"

text \<open>
  \<^verbatim>\<open>predict_proba\<close> (lines 158 to 162). The embedding gives the value the call returns or
  the error it raises. What Keras does to the model object on the way (it compiles a predict
  function at the first call and caches it on the model) and the bit-level execution of the
  forward pass are inside the library and are not part of this embedding: the forward pass
  appears only as the function \<open>pre_activation\<close> of the backend.
\<close>

definition predict_proba :: "backend \<Rightarrow> UrlDetector \<Rightarrow> int list list \<Rightarrow> error + real list" where
  "predict_proba B self encoded_docs =
     (case get_padded_docs self encoded_docs of
        Inl e \<Rightarrow> Inl e
      | Inr padded_docs \<Rightarrow> keras_predict_proba B (model self) padded_docs)"

subsection \<open>Evaluation\<close>

text \<open>
  \<^verbatim>\<open>self.model.evaluate(padded_docs, labels, verbose=1)\<close>: the loss followed by one value per
  compiled metric, as a list; a bare scalar when no metric was compiled
  (\<^verbatim>\<open>if len(outs) == 1: return outs[0]\<close>).
\<close>

datatype eval_result = Scalar real | Values "real list"

definition keras_evaluate ::
  "backend \<Rightarrow> keras_model \<Rightarrow> int list list \<Rightarrow> real list \<Rightarrow> error + eval_result" where
  "keras_evaluate B km x y =
     (case compiled km of
        None \<Rightarrow> Inl NotCompiled
      | Some c \<Rightarrow>
          if length x \<noteq> length y then Inl ShapeMismatch
          else
            let outs = map (test_scalar B (layers km) c (weights km) (zip x y))
                           (''loss'' # metrics c)
            in (case outs of [v] \<Rightarrow> Inr (Scalar v) | other \<Rightarrow> Inr (Values outs)))"

text \<open>What \<^verbatim>\<open>evaluate\<close> prints: \<^verbatim>\<open>'Accuracy: %f'\<close> and \<^verbatim>\<open>'F1-score: %f'\<close> with their arguments.\<close>

datatype printed = Accuracy_line real | F1_score_line real

text \<open>
  \<^verbatim>\<open>evaluate\<close> (lines 151 to 156). The assignment
  \<^verbatim>\<open>loss, accuracy, f1score = self.model.evaluate(...)\<close> needs exactly three values.
\<close>

definition evaluate ::
  "backend \<Rightarrow> UrlDetector \<Rightarrow> int list list \<Rightarrow> real list \<Rightarrow> error + printed list" where
  "evaluate B self encoded_docs labels =
     (case get_padded_docs self encoded_docs of
        Inl e \<Rightarrow> Inl e
      | Inr padded_docs \<Rightarrow>
          (case keras_evaluate B (model self) padded_docs labels of
             Inl e \<Rightarrow> Inl e
           | Inr (Values [loss_v, accuracy, f1score]) \<Rightarrow>
               Inr [Accuracy_line (accuracy * 100), F1_score_line f1score]
           | Inr other \<Rightarrow> Inl UnpackError))"

subsection \<open>Training\<close>

text \<open>
  The world \<^verbatim>\<open>fit\<close> acts on: the paths that exist, the paths at which the operating
  system lets the process make a directory (the parent can be made or written to, no file is
  in the way), and what the TensorBoard callback has written under each log directory. A
  summary is one call of the callback's \<^verbatim>\<open>on_epoch_end\<close>: the step (the epoch number) and the
  dictionary of the scalars it writes at that step, by tag; an empty dictionary writes
  nothing.
\<close>

record epoch_summary =
  step :: nat
  scalars :: "string \<rightharpoonup> real"

record world =
  dirs :: "string set"
  creatable :: "string \<Rightarrow> bool"
  event_log :: "string \<Rightarrow> epoch_summary list"

text \<open>
  \<^verbatim>\<open>os.path.exists\<close> is false for the empty path. \<^verbatim>\<open>os.makedirs\<close> raises for the empty path
  (\<^verbatim>\<open>FileNotFoundError\<close>), for a path that exists (\<^verbatim>\<open>FileExistsError\<close>) and for a path the
  operating system refuses; otherwise the directory exists afterwards.
\<close>

definition os_path_exists :: "world \<Rightarrow> string \<Rightarrow> bool" where
  "os_path_exists W p \<longleftrightarrow> p \<noteq> [] \<and> p \<in> dirs W"

definition os_makedirs :: "world \<Rightarrow> string \<Rightarrow> error + world" where
  "os_makedirs W p =
     (if p = [] then Inl OSError
      else if p \<in> dirs W then Inl OSError
      else if \<not> creatable W p then Inl OSError
      else Inr (W\<lparr>dirs := insert p (dirs W)\<rparr>))"

text \<open>
  Keras's \<^verbatim>\<open>fit\<close> with \<^verbatim>\<open>validation_split\<close>:
  \<^verbatim>\<open>split_at = int(len(x[0]) * (1. - validation_split))\<close>, then the training data is
  \<^verbatim>\<open>x[:split_at]\<close> and the validation data \<^verbatim>\<open>x[split_at:]\<close>, before any shuffling.
\<close>

definition split_at :: "nat \<Rightarrow> real \<Rightarrow> nat" where
  "split_at n validation_split = nat \<lfloor>real n * (1 - validation_split)\<rfloor>"

definition training_part :: "real \<Rightarrow> 'a list \<Rightarrow> 'a list" where
  "training_part validation_split xs = take (split_at (length xs) validation_split) xs"

definition validation_part :: "real \<Rightarrow> 'a list \<Rightarrow> 'a list" where
  "validation_part validation_split xs = drop (split_at (length xs) validation_split) xs"

text \<open>
  The dictionary \<^verbatim>\<open>epoch_logs\<close> of one epoch, handed to the callbacks at its end. The
  training scalars are accumulated over the batches and the validation scalars are computed
  after the last batch, with the weights the epoch ends on; an epoch with no batch leaves the
  dictionary empty.
\<close>

definition epoch_logs ::
  "backend \<Rightarrow> layer list \<Rightarrow> compile_args \<Rightarrow> weights \<Rightarrow> weights \<Rightarrow> sample list \<Rightarrow> sample list
     \<Rightarrow> (string \<rightharpoonup> real)" where
  "epoch_logs B ls c w w' tr va =
     (if tr = [] then Map.empty
      else
        map_of
          (map (\<lambda>l. (l, train_scalar B ls c w tr l)) (''loss'' # metrics c)
           @ map (\<lambda>l. (''val_'' @ l, test_scalar B ls c w' va l)) (''loss'' # metrics c)))"

text \<open>
  \<^verbatim>\<open>for epoch in range(initial_epoch, epochs)\<close>: \<open>fit_loop\<close> runs \<open>k\<close> more epochs from epoch
  number \<open>epoch\<close> and returns the final weights and the summaries written.
\<close>

fun fit_loop ::
  "backend \<Rightarrow> layer list \<Rightarrow> compile_args \<Rightarrow> sample list \<Rightarrow> sample list \<Rightarrow> nat \<Rightarrow> nat \<Rightarrow> weights
     \<Rightarrow> weights \<times> epoch_summary list" where
  "fit_loop B ls c tr va epoch 0 w = (w, [])"
| "fit_loop B ls c tr va epoch (Suc k) w =
     (let w' = train_epoch B ls c w tr;
          s = \<lparr>step = epoch, scalars = epoch_logs B ls c w w' tr va\<rparr>;
          (wf, ss) = fit_loop B ls c tr va (Suc epoch) k w'
      in (wf, s # ss))"

text \<open>
  \<^verbatim>\<open>self.model.fit(padded_docs, labels, epochs=epochs, validation_split=0.2, verbose=verbose,
  callbacks=[tensorboard])\<close> with \<^verbatim>\<open>tensorboard = TensorBoard(log_dir=training_logs)\<close>: the
  weights are updated in place and the summaries are appended under \<^verbatim>\<open>log_dir\<close>.
  \<^verbatim>\<open>verbose\<close> only changes what the console shows.
\<close>

definition keras_fit ::
  "backend \<Rightarrow> keras_model \<Rightarrow> world \<Rightarrow> int list list \<Rightarrow> real list \<Rightarrow> nat \<Rightarrow> real \<Rightarrow> string
     \<Rightarrow> error option \<times> keras_model \<times> world" where
  "keras_fit B km W x y epochs validation_split log_dir =
     (case compiled km of
        None \<Rightarrow> (Some NotCompiled, km, W)
      | Some c \<Rightarrow>
          if length x \<noteq> length y then (Some ShapeMismatch, km, W)
          else
            let tr = training_part validation_split (zip x y);
                va = validation_part validation_split (zip x y);
                (wf, ss) = fit_loop B (layers km) c tr va 0 epochs (weights km)
            in (None, km\<lparr>weights := wf\<rparr>,
                W\<lparr>event_log := (event_log W)(log_dir := event_log W log_dir @ ss)\<rparr>))"

text \<open>
  \<^verbatim>\<open>fit\<close> (lines 126 to 149). \<^verbatim>\<open>os.makedirs\<close> runs first: when it raises, nothing else is
  done; when a later step raises, the directory it made stays.
\<close>

definition fit ::
  "backend \<Rightarrow> UrlDetector \<Rightarrow> world \<Rightarrow> int list list \<Rightarrow> real list \<Rightarrow> nat \<Rightarrow> string
     \<Rightarrow> error option \<times> UrlDetector \<times> world" where
  "fit B self W encoded_docs labels epochs training_logs =
     (case (if \<not> os_path_exists W training_logs then os_makedirs W training_logs else Inr W) of
        Inl e \<Rightarrow> (Some e, self, W)
      | Inr W1 \<Rightarrow>
          (case get_padded_docs self encoded_docs of
             Inl e \<Rightarrow> (Some e, self, W1)
           | Inr padded_docs \<Rightarrow>
               (case keras_fit B (model self) W1 padded_docs labels epochs (2 / 10) training_logs of
                  (err, km, W2) \<Rightarrow> (err, self\<lparr>model := km\<rparr>, W2))))"

section \<open>Properties\<close>

subsection \<open>Padding and truncation\<close>

lemma pad_row_pos:
  "0 < m \<Longrightarrow> pad_row m Post Pre 0 D =
     Inr (if m < length D then drop (length D - m) D else D @ replicate (m - length D) 0)"
  by (auto simp: pad_row_def truncate_seq_def Let_def)

lemma pad_row_short:
  "length D \<le> m \<Longrightarrow> pad_row m Post Pre 0 D = Inr (D @ replicate (m - length D) 0)"
  by (auto simp: pad_row_def truncate_seq_def Let_def)

lemma pad_sequences_Inr_nth:
  "pad_sequences m p t v docs = Inr rows \<Longrightarrow>
     length rows = length docs \<and> (\<forall>i < length docs. pad_row m p t v (docs ! i) = Inr (rows ! i))"
proof (induction docs arbitrary: rows)
  case Nil
  then show ?case by simp
next
  case (Cons s ss)
  then show ?case
    by (auto split: sum.splits simp: nth_Cons split: nat.splits)
qed

lemma pad_sequences_total:
  "(\<forall>D \<in> set docs. \<exists>r. pad_row m p t v D = Inr r) \<Longrightarrow> \<exists>rows. pad_sequences m p t v docs = Inr rows"
proof (induction docs)
  case Nil
  then show ?case by simp
next
  case (Cons s ss)
  then show ?case by (auto split: sum.splits)
qed

text \<open>
  Claim C1, as stated: a document longer than \<open>max_length\<close> is padded to its first
  \<open>max_length\<close> entries. It fails: with \<open>max_length = 2\<close> the document \<open>[1, 2, 3]\<close> becomes
  \<open>[2, 3]\<close>, not \<open>[1, 2]\<close>, because \<^verbatim>\<open>truncating\<close> is left at \<^verbatim>\<open>'pre'\<close>.
\<close>

theorem padded_long_doc_counterexample:
  "get_padded_docs (UrlDetector_init zero_backend ''simple_nn'' 87 2) [[1, 2, 3]] = Inr [[2, 3]] \<and>
   get_padded_docs (UrlDetector_init zero_backend ''simple_nn'' 87 2) [[1, 2, 3]]
     \<noteq> Inr [take 2 [1, 2, 3]]"
  by (simp add: get_padded_docs_def UrlDetector_init_def build_model_def build_simple_nn_def
      pad_row_def truncate_seq_def)

text \<open>
  Claim C1, amended: for a positive \<open>max_length\<close>, padding a batch raises no error, and every
  document longer than \<open>max_length\<close> is cut to its last \<open>max_length\<close> entries: the head is
  dropped, the tail is kept.
\<close>

theorem padded_long_doc:
  assumes "0 < max_length self" and "i < length docs" and "max_length self < length (docs ! i)"
  shows "\<exists>rows. get_padded_docs self docs = Inr rows \<and> length rows = length docs
           \<and> rows ! i = drop (length (docs ! i) - max_length self) (docs ! i)
           \<and> length (rows ! i) = max_length self"
proof -
  have "\<forall>D \<in> set docs. \<exists>r. pad_row (max_length self) Post Pre 0 D = Inr r"
    using assms(1) by (simp add: pad_row_pos)
  then obtain rows where rows: "pad_sequences (max_length self) Post Pre 0 docs = Inr rows"
    using pad_sequences_total by blast
  from pad_sequences_Inr_nth [OF rows] assms(2)
  have len: "length rows = length docs"
    and row: "pad_row (max_length self) Post Pre 0 (docs ! i) = Inr (rows ! i)"
    by simp_all
  from row assms(1,3) have "rows ! i = drop (length (docs ! i) - max_length self) (docs ! i)"
    by (simp add: pad_row_pos)
  with rows len assms(3) show ?thesis
    by (simp add: get_padded_docs_def)
qed

theorem padded_long_doc_witness:
  "\<exists>rows. get_padded_docs \<lparr>max_length = 2, vocab_size = 87, model = Sequential_empty\<rparr>
            [[7], [1, 2, 3]] = Inr rows
     \<and> length rows = 2 \<and> rows ! 1 = [2, 3] \<and> length (rows ! 1) = 2"
proof -
  let ?self = "\<lparr>max_length = 2, vocab_size = 87, model = Sequential_empty\<rparr>"
  let ?docs = "[[7], [1, 2, 3 :: int]]"
  have h1: "0 < max_length ?self" by simp
  have h2: "(1::nat) < length ?docs" by simp
  have h3: "max_length ?self < length (?docs ! 1)" by simp
  show ?thesis using padded_long_doc [OF h1 h2 h3] by (simp add: numeral_2_eq_2)
qed

text \<open>
  Claim C2: a document no longer than \<open>max_length\<close> is padded to exactly \<open>max_length\<close>
  entries, the document first and zeros after it. (The batch is padded without error when
  \<open>max_length\<close> is positive, or when no document of the batch is longer than \<open>max_length\<close>.)
\<close>

theorem padded_short_doc:
  assumes "i < length docs" and "length (docs ! i) \<le> max_length self"
    and "0 < max_length self \<or> (\<forall>D \<in> set docs. length D \<le> max_length self)"
  shows "\<exists>rows. get_padded_docs self docs = Inr rows \<and> length rows = length docs
           \<and> length (rows ! i) = max_length self
           \<and> take (length (docs ! i)) (rows ! i) = docs ! i
           \<and> drop (length (docs ! i)) (rows ! i) = replicate (max_length self - length (docs ! i)) 0"
proof -
  have "\<forall>D \<in> set docs. \<exists>r. pad_row (max_length self) Post Pre 0 D = Inr r"
    using assms(3) by (auto simp: pad_row_pos pad_row_short)
  then obtain rows where rows: "pad_sequences (max_length self) Post Pre 0 docs = Inr rows"
    using pad_sequences_total by blast
  from pad_sequences_Inr_nth [OF rows] assms(1)
  have len: "length rows = length docs"
    and row: "pad_row (max_length self) Post Pre 0 (docs ! i) = Inr (rows ! i)"
    by simp_all
  from row assms(2)
  have "rows ! i = docs ! i @ replicate (max_length self - length (docs ! i)) 0"
    by (simp add: pad_row_short)
  with rows len assms(2) show ?thesis
    by (simp add: get_padded_docs_def)
qed

theorem padded_short_doc_witness:
  "\<exists>rows. get_padded_docs \<lparr>max_length = 4, vocab_size = 87, model = Sequential_empty\<rparr>
            [[5, 6], [1, 2, 3, 4, 5]] = Inr rows
     \<and> length rows = 2 \<and> length (rows ! 0) = 4
     \<and> take 2 (rows ! 0) = [5, 6] \<and> drop 2 (rows ! 0) = [0, 0]"
proof -
  let ?self = "\<lparr>max_length = 4, vocab_size = 87, model = Sequential_empty\<rparr>"
  let ?docs = "[[5, 6], [1, 2, 3, 4, 5 :: int]]"
  have h1: "(0::nat) < length ?docs" by simp
  have h2: "length (?docs ! 0) \<le> max_length ?self" by simp
  have h3: "0 < max_length ?self \<or> (\<forall>D \<in> set ?docs. length D \<le> max_length ?self)" by simp
  show ?thesis using padded_short_doc [OF h1 h2 h3] by (simp add: numeral_2_eq_2)
qed

subsection \<open>The F1 metric\<close>

lemma K_epsilon_pos: "0 < K_epsilon"
  by (simp add: K_epsilon_def)

lemma round_half_even_clip:
  "round_half_even (min (max v 0) 1) = (if 1 / 2 < v then 1 else 0)"
proof -
  consider "v \<le> 0" | "0 < v" "v < 1" | "1 \<le> v" by linarith
  then show ?thesis
  proof cases
    case 1
    then have "min (max v 0) 1 = 0" by simp
    then show ?thesis using 1 by (simp add: round_half_even_def)
  next
    case 2
    then have c: "min (max v 0) 1 = v" by simp
    have f: "\<lfloor>v\<rfloor> = 0" using 2 by (simp add: floor_eq_iff)
    show ?thesis unfolding c by (simp add: round_half_even_def f)
  next
    case 3
    then have "min (max v 0) 1 = 1" by simp
    then show ?thesis using 3 by (simp add: round_half_even_def)
  qed
qed

lemma spec_positive_iff: "spec_positive p \<longleftrightarrow> 1 / 2 < p"
  by (auto simp: spec_positive_def min_def max_def)

lemma predicted_positives_count:
  "predicted_positives y = real (length (filter (\<lambda>p. 1 / 2 < p) y))"
  by (induction y)
     (simp_all add: predicted_positives_def K_sum_def K_round_def K_clip_def round_half_even_clip)

lemma possible_positives_count:
  "possible_positives y = real (length (filter (\<lambda>p. 1 / 2 < p) y))"
  by (induction y)
     (simp_all add: possible_positives_def K_sum_def K_round_def K_clip_def round_half_even_clip)

lemma true_positives_count:
  "length y_true = length y_pred \<Longrightarrow>
   true_positives y_true y_pred
     = real (length (filter (\<lambda>(t, p). 1 / 2 < t * p) (zip y_true y_pred)))"
  by (induction y_true y_pred rule: list_induct2)
     (simp_all add: true_positives_def K_sum_def K_round_def K_clip_def tensor_mul_def
        round_half_even_clip)

lemma true_positives_spec:
  assumes "length y_true = length y_pred" and "binary_labels y_true"
  shows "true_positives y_true y_pred = real (spec_TP y_true y_pred)"
  using assms
  by (induction y_true y_pred rule: list_induct2)
     (auto simp: true_positives_def K_sum_def K_round_def K_clip_def tensor_mul_def
        round_half_even_clip spec_TP_def spec_positive_iff binary_labels_def)







lemma possible_positives_nonneg: "0 \<le> possible_positives y"
  by (simp add: possible_positives_count)

lemma predicted_positives_nonneg: "0 \<le> predicted_positives y"
  by (simp add: predicted_positives_count)

lemma true_positives_nonneg: "length y_true = length y_pred \<Longrightarrow> 0 \<le> true_positives y_true y_pred"
  by (simp add: true_positives_count)

lemma precision_nonneg: "length y_true = length y_pred \<Longrightarrow> 0 \<le> precision y_true y_pred"
  using K_epsilon_pos predicted_positives_nonneg [of y_pred]
  by (simp add: precision_def true_positives_nonneg)

lemma recall_nonneg: "length y_true = length y_pred \<Longrightarrow> 0 \<le> recall y_true y_pred"
  using K_epsilon_pos possible_positives_nonneg [of y_true]
  by (simp add: recall_def true_positives_nonneg)

lemma spec_TP_zero:
  "(\<forall>p \<in> set y_pred. \<not> spec_positive p) \<or> (\<forall>t \<in> set y_true. t \<noteq> 1) \<Longrightarrow> spec_TP y_true y_pred = 0"
  by (auto simp: spec_TP_def filter_empty_conv dest: set_zip_leftD set_zip_rightD)




lemma f1_denominators_positive:
  assumes "length y_true = length y_pred"
  shows "0 < predicted_positives y_pred + K_epsilon"
    and "0 < possible_positives y_true + K_epsilon"
    and "0 < precision y_true y_pred + recall y_true y_pred + K_epsilon"
  using K_epsilon_pos predicted_positives_nonneg [of y_pred] possible_positives_nonneg [of y_true]
    precision_nonneg [OF assms] recall_nonneg [OF assms]
  by linarith+

lemma all_positive_counts:
  assumes "K_round (K_clip y_pred 0 1) = y_true" and "\<forall>t \<in> set y_true. t = 1"
  shows "length y_true = length y_pred"
    and "true_positives y_true y_pred = real (length y_true)"
    and "predicted_positives y_pred = real (length y_true)"
    and "possible_positives y_true = real (length y_true)"
proof -
  show len: "length y_true = length y_pred"
    using assms(1) by (auto simp: K_round_def K_clip_def)
  have ones: "y_true = replicate (length y_true) 1"
    using assms(2) by (simp add: replicate_length_same)
  have pos: "\<forall>p \<in> set y_pred. 1 / 2 < p"
  proof
    fix p assume "p \<in> set y_pred"
    then have "round_half_even (min (max p 0) 1) \<in> set y_true"
      using assms(1) by (auto simp: K_round_def K_clip_def)
    then have "round_half_even (min (max p 0) 1) = 1" using assms(2) by simp
    then show "1 / 2 < p" by (simp add: round_half_even_clip split: if_splits)
  qed
  show "predicted_positives y_pred = real (length y_true)"
    using pos len by (simp add: predicted_positives_count)
  have "filter (\<lambda>p. 1 / 2 < p) y_true = y_true"
    using assms(2) by (auto simp: filter_id_conv)
  then show "possible_positives y_true = real (length y_true)"
    by (simp add: possible_positives_count)
  have "filter (\<lambda>(t, p). 1 / 2 < t * p) (zip y_true y_pred) = zip y_true y_pred"
    using pos assms(2) by (auto simp: filter_id_conv elim!: in_set_zipE)
  then show "true_positives y_true y_pred = real (length y_true)"
    using len by (simp add: true_positives_count)
qed

lemma smoothed_ratio_bounds:
  fixes n e :: real
  assumes "1 \<le> n" and "0 < e" and "e < 1"
  shows "1 - e < n / (n + e)" and "n / (n + e) < 1"
proof -
  have pos: "0 < n + e" using assms by linarith
  have "(1 - e) * (n + e) < n"
  proof -
    have "(1 - e) * (n + e) = n + e * (1 - n - e)" by (simp add: algebra_simps)
    moreover have "e * (1 - n - e) < 0"
      using assms by (intro mult_pos_neg) linarith+
    ultimately show ?thesis by linarith
  qed
  then show "1 - e < n / (n + e)" using pos by (simp add: pos_less_divide_eq)
  show "n / (n + e) < 1" using pos assms by (simp add: pos_divide_less_eq)
qed

lemma smoothed_f1_bounds:
  fixes P e :: real
  assumes "1 - e < P" and "P < 1" and "0 < e" and "e < 1 / 2"
  shows "1 - 2 * e < 2 * ((P * P) / (P + P + e))" and "2 * ((P * P) / (P + P + e)) < 1"
proof -
  have Ppos: "1 / 2 < P" using assms by linarith
  have den: "0 < P + P + e" using Ppos assms by linarith
  have "P * P < P * 1" using assms Ppos by (intro mult_strict_left_mono) linarith+
  then have "2 * (P * P) < P + P + e" using assms by linarith
  then have "2 * (P * P) / (P + P + e) < 1" using den by (simp add: pos_divide_less_eq)
  then show "2 * ((P * P) / (P + P + e)) < 1" by simp
  have "P * (- e) < P * (P - 1)" using assms Ppos by (intro mult_strict_left_mono) linarith+
  then have a: "- (e * P) < P * P - P" by (simp add: algebra_simps)
  have b: "e * (1 / 2) < e * P" using assms Ppos by (intro mult_strict_left_mono) linarith+
  have c: "0 \<le> e * e" by simp
  have "(1 - 2 * e) * (P + P + e) = 2 * P - 4 * (e * P) + e - 2 * (e * e)"
    by (simp add: algebra_simps)
  also have "\<dots> < 2 * (P * P)" using a b c by linarith
  finally have "(1 - 2 * e) * (P + P + e) < 2 * (P * P)" .
  then have "1 - 2 * e < 2 * (P * P) / (P + P + e)" using den by (simp add: pos_less_divide_eq)
  then show "1 - 2 * e < 2 * ((P * P) / (P + P + e))" by simp
qed

text \<open>
  In exact arithmetic the smoothing keeps \<open>f1\<close> strictly below 1 on an all-positive batch
  that the rounded predictions match.
\<close>

lemma f1_exact_all_positive:
  assumes "y_true \<noteq> []" and "\<forall>t \<in> set y_true. t = 1" and "K_round (K_clip y_pred 0 1) = y_true"
  shows "\<exists>v. f1 y_true y_pred = Inr v \<and> 1 - 2 * K_epsilon < v \<and> v < 1"
proof -
  note c = all_positive_counts [OF assms(3) assms(2)]
  let ?n = "real (length y_true)"
  let ?P = "?n / (?n + K_epsilon)"
  have n: "1 \<le> ?n" using assms(1) by (cases y_true) simp_all
  have e: "0 < K_epsilon" "K_epsilon < 1" "K_epsilon < 1 / 2" by (simp_all add: K_epsilon_def)
  have P: "1 - K_epsilon < ?P" "?P < 1" using smoothed_ratio_bounds [OF n e(1,2)] by simp_all
  have v: "f1 y_true y_pred = Inr (2 * ((?P * ?P) / (?P + ?P + K_epsilon)))"
    using c(1) by (simp add: f1_def precision_def recall_def c(2,3,4) Let_def)
  show ?thesis
    using smoothed_f1_bounds [OF P e(1) e(3)] v by simp
qed

lemma round_half_even_one: "round_half_even 1 = 1"
  by (simp add: round_half_even_def)

lemma f1_single_positive: "f1 [1] [1] = Inr (2000000000000000000000 / 2000000300000020000001)"
  by (simp add: f1_def precision_def recall_def true_positives_def predicted_positives_def
      possible_positives_def K_sum_def K_round_def K_clip_def tensor_mul_def
      round_half_even_one K_epsilon_def Let_def)

subsection \<open>The F1 metric in binary32\<close>

lemma round_half_even_near:
  assumes "of_int k - 1 / 2 < y" and "y < of_int k + 1 / 2"
  shows "round_half_even y = of_int k"
proof (cases "of_int k \<le> y")
  case True
  then have f: "\<lfloor>y\<rfloor> = k" using assms(2) by (simp add: floor_eq_iff)
  show ?thesis using assms(2) by (simp add: round_half_even_def f)
next
  case False
  then have f: "\<lfloor>y\<rfloor> = k - 1" using assms(1) by (simp add: floor_eq_iff)
  show ?thesis using assms(1) False by (simp add: round_half_even_def f)
qed

lemma binade_eq:
  assumes "0 < x" and "2 powi e \<le> x" and "x < 2 powi (e + 1)"
  shows "\<lfloor>log 2 x\<rfloor> = e"
  using assms floor_log_eq_powr_iff [of x 2 e]
    powr_real_of_int' [of "2::real" e] powr_real_of_int' [of "2::real" "e + 1"]
  by simp

lemma fl32_binade:
  assumes "0 < x" and "2 powi e \<le> x" and "x < 2 powi (e + 1)" and "- 126 \<le> e"
  shows "fl32 x = round_half_even (x * 2 powi (23 - e)) * 2 powi (e - 23)"
proof -
  have a: "\<bar>x\<bar> = x" using assms(1) by simp
  have b: "\<lfloor>log 2 x\<rfloor> = e" by (rule binade_eq [OF assms(1,2,3)])
  have m: "max (e - 23) (- 149) = e - 23" using assms(4) by simp
  have d: "x / 2 powi (e - 23) = x * 2 powi (23 - e)"
    using power_int_minus [of "2::real" "e - 23"] by (simp add: field_simps)
  have "x \<noteq> 0" using assms(1) by simp
  then show ?thesis unfolding fl32_def a b m Let_def d by simp
qed

lemma fl32_near_nat:
  fixes n e :: nat and d :: real
  assumes "2 ^ e \<le> n" and "n < 2 ^ (e + 1)" and "e \<le> 23"
    and "0 \<le> d" and "d * 2 ^ (23 - e) < 1 / 2"
  shows "fl32 (real n + d) = real n"
proof -
  let ?s = "(2::real) ^ (23 - e)"
  have n_lo: "(2::real) ^ e \<le> real n"
    using of_nat_mono [OF assms(1), where ?'a = real] by simp
  have "n + 1 \<le> 2 ^ (e + 1)" using assms(2) by simp
  from of_nat_mono [OF this, where ?'a = real]
  have n_hi: "real n + 1 \<le> 2 ^ (e + 1)" by simp
  have s1: "1 \<le> ?s" by simp
  have dlt: "d < 1 / 2"
  proof -
    have "d * 1 \<le> d * ?s" using assms(4) s1 by (intro mult_left_mono)
    then show ?thesis using assms(5) by simp
  qed
  have pos: "0 < real n + d" using n_lo assms(4) by (smt (verit) zero_less_power)
  have lo: "(2::real) powi int e \<le> real n + d"
    unfolding power_int_of_nat using n_lo assms(4) by linarith
  have "(2::real) powi (int e + 1) = 2 powi int (e + 1)" by (simp add: add.commute)
  then have hi: "real n + d < (2::real) powi (int e + 1)"
    unfolding power_int_of_nat using n_hi dlt by linarith
  have q1: "(2::real) powi (23 - int e) = ?s"
    using assms(3) power_int_of_nat [of "2::real" "23 - e"] by (simp add: of_nat_diff)
  have q2: "(2::real) powi (int e - 23) = inverse ?s"
    using q1 power_int_minus [of "2::real" "23 - int e"] by simp
  have fl: "fl32 (real n + d) = round_half_even ((real n + d) * ?s) * inverse ?s"
    using fl32_binade [OF pos lo hi] by (simp add: q1 q2)
  have ip: "real n * ?s = of_int (int (n * 2 ^ (23 - e)))" by simp
  have r: "round_half_even ((real n + d) * ?s) = of_int (int (n * 2 ^ (23 - e)))"
  proof (rule round_half_even_near)
    have "0 \<le> d * ?s" using assms(4) by simp
    then show "of_int (int (n * 2 ^ (23 - e))) - 1 / 2 < (real n + d) * ?s"
      unfolding ip [symmetric] by (simp add: algebra_simps)
    show "(real n + d) * ?s < of_int (int (n * 2 ^ (23 - e))) + 1 / 2"
      unfolding ip [symmetric] using assms(5) by (simp add: algebra_simps)
  qed
  show ?thesis unfolding fl r by simp
qed

lemma nat_binade:
  fixes n :: nat
  assumes "1 \<le> n" and "n < 2 ^ 24"
  obtains e :: nat where "2 ^ e \<le> n" and "n < 2 ^ (e + 1)" and "e \<le> 23"
proof -
  obtain e :: nat where e: "2 ^ e \<le> n" "n < 2 ^ (e + 1)"
    using ex_power_ivl1 [of 2 n] assms(1) by auto
  have "e \<le> 23"
  proof (rule ccontr)
    assume "\<not> e \<le> 23"
    then have "24 \<le> e" by simp
    then have "(2::nat) ^ 24 \<le> 2 ^ e" by (intro power_increasing) simp_all
    with e(1) assms(2) show False by simp
  qed
  with e that show thesis by blast
qed

lemma fl32_nat:
  fixes n :: nat
  assumes "n < 2 ^ 24"
  shows "fl32 (real n) = real n"
proof (cases "n = 0")
  case True
  then show ?thesis by (simp add: fl32_def)
next
  case False
  then have "1 \<le> n" by simp
  from nat_binade [OF this assms] obtain e :: nat
    where e: "2 ^ e \<le> n" "n < 2 ^ (e + 1)" "e \<le> 23" .
  show ?thesis using fl32_near_nat [OF e, of 0] by simp
qed

lemma fl32_nat_plus:
  fixes n :: nat and d :: real
  assumes "2 \<le> n" and "n < 2 ^ 24" and "0 \<le> d" and "d * 2 ^ 22 < 1 / 2"
  shows "fl32 (real n + d) = real n"
proof -
  have "1 \<le> n" using assms(1) by simp
  from nat_binade [OF this assms(2)] obtain e :: nat
    where e: "2 ^ e \<le> n" "n < 2 ^ (e + 1)" "e \<le> 23" .
  have "e \<noteq> 0" using e(2) assms(1) by (cases e) simp_all
  then have "23 - e \<le> 22" by simp
  then have "(2::real) ^ (23 - e) \<le> 2 ^ 22" by (intro power_increasing) simp_all
  then have "d * 2 ^ (23 - e) \<le> d * 2 ^ 22" using assms(3) by (intro mult_left_mono)
  then have "d * 2 ^ (23 - e) < 1 / 2" using assms(4) by linarith
  from fl32_near_nat [OF e assms(3) this] show ?thesis .
qed

lemma fl32_eval:
  assumes "0 < x" and "2 powi e \<le> x" and "x < 2 powi (e + 1)" and "- 126 \<le> e"
    and "of_int k - 1 / 2 < x * 2 powi (23 - e)" and "x * 2 powi (23 - e) < of_int k + 1 / 2"
  shows "fl32 x = of_int k * 2 powi (e - 23)"
  unfolding fl32_binade [OF assms(1-4)] round_half_even_near [OF assms(5,6)] by (rule refl)

lemma K_epsilon32_value: "K_epsilon32 = 14073749 / 2 ^ 47"
proof -
  have "fl32 (1 / 10000000) = of_int 14073749 * 2 powi (- 24 - 23)"
    by (rule fl32_eval) (simp_all add: power_int_minus)
  then show ?thesis by (simp add: K_epsilon32_def K_epsilon_def power_int_minus field_simps)
qed

lemma fl32_half: "fl32 (1 / 2) = 1 / 2"
proof -
  have "fl32 (1 / 2) = of_int 8388608 * 2 powi (- 1 - 23)"
    by (rule fl32_eval) (simp_all add: power_int_minus)
  then show ?thesis by (simp add: power_int_minus)
qed

lemma fl32_one: "fl32 1 = 1"
  using fl32_nat [of 1] by simp

lemma fl32_two: "fl32 2 = 2"
  using fl32_nat [of 2] by simp


lemma foldl_fl32_ones:
  "a + k < 2 ^ 24 \<Longrightarrow>
     foldl (\<lambda>a v. fl32 (a + v)) (real a) (replicate k 1) = real (a + k)"
proof (induction k arbitrary: a)
  case 0
  then show ?case by simp
next
  case (Suc k)
  have "fl32 (real a + 1) = real (Suc a)"
    using fl32_nat [of "Suc a"] Suc.prems by (simp add: add.commute)
  moreover have "Suc a + k < 2 ^ 24" using Suc.prems by simp
  ultimately show ?case using Suc.IH [of "Suc a"] by simp
qed

lemma sum32_ones: "n < 2 ^ 24 \<Longrightarrow> sum32 (replicate n 1) = real n"
  using foldl_fl32_ones [of 0 n] by (simp add: sum32_def)

lemma all_positive_counts32:
  assumes "\<forall>t \<in> set y_true. t = 1" and "K_round (K_clip y_pred 0 1) = y_true"
    and "\<forall>p \<in> set y_pred. fl32 p = p" and "length y_true < 2 ^ 24"
  shows "length y_true = length y_pred"
    and "true_positives32 y_true y_pred = real (length y_true)"
    and "predicted_positives32 y_pred = real (length y_true)"
    and "possible_positives32 y_true = real (length y_true)"
proof -
  show len: "length y_true = length y_pred"
    using assms(2) by (auto simp: K_round_def K_clip_def)
  have ones: "y_true = replicate (length y_true) 1"
    using assms(1) by (simp add: replicate_length_same)
  have "map2 (\<lambda>u v. fl32 (u * v)) y_true y_pred = y_pred"
    using len assms(1,3)
  proof (induction y_true y_pred rule: list_induct2)
    case Nil
    show ?case by simp
  next
    case (Cons t ts p ps)
    then show ?case by simp
  qed
  then have mul: "tensor_mul32 y_true y_pred = y_pred" by (simp add: tensor_mul32_def)
  show "predicted_positives32 y_pred = real (length y_true)"
    unfolding predicted_positives32_def assms(2)
    using sum32_ones [OF assms(4)] ones by simp
  show "true_positives32 y_true y_pred = real (length y_true)"
    unfolding true_positives32_def mul assms(2)
    using sum32_ones [OF assms(4)] ones by simp
  have "K_round (K_clip y_true 0 1) = replicate (length y_true) 1"
    using assms(1) by (induction y_true) (simp_all add: K_round_def K_clip_def round_half_even_one)
  then show "possible_positives32 y_true = real (length y_true)"
    unfolding possible_positives32_def using sum32_ones [OF assms(4)] by simp
qed

lemma smoothed32_many:
  fixes n :: nat
  assumes "2 \<le> n" and "n < 2 ^ 24"
  shows "fl32 (real n / fl32 (real n + K_epsilon32)) = 1"
proof -
  have "fl32 (real n + K_epsilon32) = real n"
    by (rule fl32_nat_plus [OF assms]) (simp_all add: K_epsilon32_value)
  moreover have "real n / real n = 1" using assms(1) by simp
  ultimately show ?thesis by (simp add: fl32_one)
qed

lemma f1_tail32_one: "fl32 (2 * fl32 (fl32 (1 * 1) / fl32 (fl32 (1 + 1) + K_epsilon32))) = 1"
proof -
  have "fl32 (real 2 + K_epsilon32) = real 2"
    by (rule fl32_nat_plus) (simp_all add: K_epsilon32_value)
  then have "fl32 (2 + K_epsilon32) = 2" by simp
  then show ?thesis by (simp add: fl32_one fl32_two fl32_half)
qed

lemma smoothed32_single: "fl32 (1 / fl32 (1 + K_epsilon32)) = 8388607 / 8388608"
proof -
  have a: "fl32 (1 + K_epsilon32) = of_int 8388609 * 2 powi (0 - 23)"
    by (rule fl32_eval) (simp_all add: K_epsilon32_value power_int_minus)
  have b: "fl32 (8388608 / 8388609) = of_int 16777214 * 2 powi (- 1 - 23)"
    by (rule fl32_eval) (simp_all add: power_int_minus)
  show ?thesis using b by (simp add: a power_int_minus)
qed

lemma f1_tail32_single:
  "fl32 (2 * fl32 (fl32 ((8388607 / 8388608) * (8388607 / 8388608))
      / fl32 (fl32 (8388607 / 8388608 + 8388607 / 8388608) + K_epsilon32)))
   = 16777213 / 16777216"
proof -
  have pp: "fl32 (70368727400449 / 70368744177664) = of_int 16777212 * 2 powi (- 1 - 23)"
    by (rule fl32_eval) (simp_all add: power_int_minus)
  have s: "fl32 (8388607 / 4194304) = of_int 16777214 * 2 powi (0 - 23)"
    by (rule fl32_eval) (simp_all add: power_int_minus)
  have d: "fl32 (8388607 / 4194304 + K_epsilon32) = of_int 16777215 * 2 powi (0 - 23)"
    by (rule fl32_eval) (simp_all add: K_epsilon32_value power_int_minus)
  have q: "fl32 (8388606 / 16777215) = of_int 16777213 * 2 powi (- 2 - 23)"
    by (rule fl32_eval) (simp_all add: power_int_minus)
  have f: "fl32 (16777213 / 16777216) = of_int 16777213 * 2 powi (- 1 - 23)"
    by (rule fl32_eval) (simp_all add: power_int_minus)
  have pp': "fl32 ((8388607 / 8388608) * (8388607 / 8388608)) = 4194303 / 4194304"
    using pp by (simp add: power_int_minus)
  have s': "fl32 (8388607 / 8388608 + 8388607 / 8388608) = 8388607 / 4194304"
    using s by (simp add: power_int_minus)
  have d': "fl32 (8388607 / 4194304 + K_epsilon32) = 16777215 / 8388608"
    using d by (simp add: power_int_minus)
  have q': "fl32 ((4194303 / 4194304) / (16777215 / 8388608)) = 16777213 / 33554432"
    using q by (simp add: power_int_minus)
  have f': "fl32 (2 * (16777213 / 33554432)) = 16777213 / 16777216"
    using f by (simp add: power_int_minus)
  show ?thesis unfolding pp' s' d' q' f' by (rule refl)
qed

text \<open>
  The sums of the metric are the same in binary32 as in exact arithmetic, for binary labels,
  binary32 predictions and fewer than \<open>2 ^ 24\<close> samples; on a degenerate batch the binary32
  metric is 0 as well.
\<close>

lemma fl32_zero: "fl32 0 = 0"
  by (simp add: fl32_def)

lemma foldl_fl32_zero_one:
  "\<forall>v \<in> set xs. v = 0 \<or> v = 1 \<Longrightarrow> a + length xs < 2 ^ 24 \<Longrightarrow>
     foldl (\<lambda>a v. fl32 (a + v)) (real a) xs = real a + sum_list xs"
proof (induction xs arbitrary: a)
  case Nil
  show ?case by simp
next
  case (Cons x xs)
  from Cons.prems(1) consider "x = 0" | "x = 1" by auto
  then show ?case
  proof cases
    case 1
    have "fl32 (real a) = real a" using fl32_nat [of a] Cons.prems(2) by simp
    moreover have "a + length xs < 2 ^ 24" using Cons.prems(2) by simp
    ultimately show ?thesis using Cons.IH [of a] Cons.prems(1) 1 by simp
  next
    case 2
    have "fl32 (real a + 1) = real (Suc a)"
      using fl32_nat [of "Suc a"] Cons.prems(2) by (simp add: add.commute)
    moreover have "Suc a + length xs < 2 ^ 24" using Cons.prems(2) by simp
    ultimately show ?thesis using Cons.IH [of "Suc a"] Cons.prems(1) 2 by simp
  qed
qed

lemma sum32_zero_one:
  "\<forall>v \<in> set xs. v = 0 \<or> v = 1 \<Longrightarrow> length xs < 2 ^ 24 \<Longrightarrow> sum32 xs = K_sum xs"
  using foldl_fl32_zero_one [of xs 0] by (simp add: sum32_def K_sum_def)

lemma rounded_zero_one: "\<forall>v \<in> set (K_round (K_clip x 0 1)). v = 0 \<or> v = 1"
  by (auto simp: K_round_def K_clip_def round_half_even_clip)

lemma length_rounded: "length (K_round (K_clip x 0 1)) = length x"
  by (simp add: K_round_def K_clip_def)

lemma tensor_mul32_binary:
  assumes "length y_true = length y_pred" and "binary_labels y_true"
    and "\<forall>p \<in> set y_pred. fl32 p = p"
  shows "tensor_mul32 y_true y_pred = tensor_mul y_true y_pred"
  using assms
  by (induction y_true y_pred rule: list_induct2)
     (auto simp: tensor_mul32_def tensor_mul_def binary_labels_def fl32_zero)

lemma counts32_exact:
  assumes "length y_true = length y_pred" and "binary_labels y_true"
    and "\<forall>p \<in> set y_pred. fl32 p = p" and "length y_true < 2 ^ 24"
  shows "true_positives32 y_true y_pred = true_positives y_true y_pred"
    and "predicted_positives32 y_pred = predicted_positives y_pred"
    and "possible_positives32 y_true = possible_positives y_true"
proof -
  have l: "length (tensor_mul y_true y_pred) = length y_true"
    using assms(1) by (simp add: tensor_mul_def)
  show "true_positives32 y_true y_pred = true_positives y_true y_pred"
    unfolding true_positives32_def true_positives_def tensor_mul32_binary [OF assms(1-3)]
    using assms(4) l by (intro sum32_zero_one rounded_zero_one) (simp add: length_rounded)
  show "predicted_positives32 y_pred = predicted_positives y_pred"
    unfolding predicted_positives32_def predicted_positives_def
    using assms(1,4) by (intro sum32_zero_one rounded_zero_one) (simp add: length_rounded)
  show "possible_positives32 y_true = possible_positives y_true"
    unfolding possible_positives32_def possible_positives_def
    using assms(4) by (intro sum32_zero_one rounded_zero_one) (simp add: length_rounded)
qed

lemma f1_float32_degenerate:
  assumes "length y_true = length y_pred" and "binary_labels y_true"
    and "(\<forall>p \<in> set y_pred. \<not> spec_positive p) \<or> (\<forall>t \<in> set y_true. t \<noteq> 1)"
    and "\<forall>p \<in> set y_pred. fl32 p = p" and "length y_true < 2 ^ 24"
  shows "f1_float32 y_true y_pred = Inr 0"
proof -
  have "true_positives32 y_true y_pred = 0"
    unfolding counts32_exact(1) [OF assms(1,2,4,5)]
    by (simp add: true_positives_spec [OF assms(1,2)] spec_TP_zero [OF assms(3)])
  then have "precision32 y_true y_pred = 0" "recall32 y_true y_pred = 0"
    by (simp_all add: precision32_def recall32_def fl32_zero)
  then show ?thesis using assms(1) by (simp add: f1_float32_def fl32_zero)
qed

text \<open>
  Claim C5, amended: on a non-empty all-positive batch of fewer than \<open>2 ^ 24\<close> samples whose
  rounded predictions equal the labels, \<open>f1\<close> computed in binary32 returns exactly 1 when the
  batch holds at least two samples (the smoothing terms are rounded away), and
  \<open>16777213 / 16777216\<close>, about 0.99999982, when it holds a single sample.
\<close>

theorem f1_float32_all_positive:
  assumes "y_true \<noteq> []" and "\<forall>t \<in> set y_true. t = 1" and "K_round (K_clip y_pred 0 1) = y_true"
    and "\<forall>p \<in> set y_pred. fl32 p = p" and "length y_true < 2 ^ 24"
  shows "f1_float32 y_true y_pred
           = Inr (if length y_true = 1 then 16777213 / 16777216 else 1)"
proof -
  note c = all_positive_counts32 [OF assms(2-5)]
  let ?n = "length y_true"
  have v: "f1_float32 y_true y_pred =
      Inr (fl32 (2 * fl32 (fl32 (fl32 (real ?n / fl32 (real ?n + K_epsilon32))
                                   * fl32 (real ?n / fl32 (real ?n + K_epsilon32)))
             / fl32 (fl32 (fl32 (real ?n / fl32 (real ?n + K_epsilon32))
                            + fl32 (real ?n / fl32 (real ?n + K_epsilon32))) + K_epsilon32))))"
    using c(1) by (simp add: f1_float32_def precision32_def recall32_def c(2,3,4) Let_def)
  show ?thesis
  proof (cases "?n = 1")
    case True
    have P: "fl32 (real ?n / fl32 (real ?n + K_epsilon32)) = 8388607 / 8388608"
      using smoothed32_single by (simp add: True)
    show ?thesis unfolding v P f1_tail32_single using True by simp
  next
    case False
    moreover have "?n \<noteq> 0" using assms(1) by simp
    ultimately have "2 \<le> ?n" by linarith
    from smoothed32_many [OF this assms(5)]
    have P: "fl32 (real ?n / fl32 (real ?n + K_epsilon32)) = 1" .
    show ?thesis unfolding v P f1_tail32_one using False by simp
  qed
qed

lemma fl32_three_quarters: "fl32 (3 / 4) = 3 / 4"
proof -
  have "fl32 (3 / 4) = of_int 12582912 * 2 powi (- 1 - 23)"
    by (rule fl32_eval) (simp_all add: power_int_minus)
  then show ?thesis by (simp add: power_int_minus)
qed

lemma fl32_five_eighths: "fl32 (5 / 8) = 5 / 8"
proof -
  have "fl32 (5 / 8) = of_int 10485760 * 2 powi (- 1 - 23)"
    by (rule fl32_eval) (simp_all add: power_int_minus)
  then show ?thesis by (simp add: power_int_minus)
qed

lemma round_half_even_examples:
  "round_half_even (3 / 4) = 1" "round_half_even (5 / 8) = 1"
  using round_half_even_clip [of "3 / 4"] round_half_even_clip [of "5 / 8"] by simp_all

theorem f1_float32_all_positive_witness:
  "f1_float32 [1, 1] [3 / 4, 5 / 8] = Inr 1
   \<and> f1_float32 [1] [3 / 4] = Inr (16777213 / 16777216)"
proof -
  have a1: "[1, 1 :: real] \<noteq> []" by simp
  have a2: "\<forall>t \<in> set [1, 1 :: real]. t = 1" by simp
  have a3: "K_round (K_clip [3 / 4, 5 / 8] 0 1) = [1, 1]"
    by (simp add: K_round_def K_clip_def round_half_even_examples)
  have a4: "\<forall>p \<in> set [3 / 4, 5 / 8 :: real]. fl32 p = p"
    by (simp add: fl32_three_quarters fl32_five_eighths)
  have a5: "length [1, 1 :: real] < 2 ^ 24" by simp
  have b1: "[1 :: real] \<noteq> []" by simp
  have b2: "\<forall>t \<in> set [1 :: real]. t = 1" by simp
  have b3: "K_round (K_clip [3 / 4] 0 1) = [1]"
    by (simp add: K_round_def K_clip_def round_half_even_examples)
  have b4: "\<forall>p \<in> set [3 / 4 :: real]. fl32 p = p"
    by (simp add: fl32_three_quarters)
  have b5: "length [1 :: real] < 2 ^ 24" by simp
  show ?thesis
    using f1_float32_all_positive [OF a1 a2 a3 a4 a5] f1_float32_all_positive [OF b1 b2 b3 b4 b5]
    by simp
qed

lemma f1_float32_single_positive: "f1_float32 [1] [1] = Inr (16777213 / 16777216)"
proof -
  have c: "true_positives32 [1] [1] = 1" "predicted_positives32 [1] = 1"
    "possible_positives32 [1] = 1"
    by (simp_all add: true_positives32_def predicted_positives32_def possible_positives32_def
        sum32_def tensor_mul32_def K_round_def K_clip_def round_half_even_one fl32_one)
  let ?P = "fl32 (1 / fl32 (1 + K_epsilon32))"
  have "f1_float32 [1] [1] =
      Inr (fl32 (2 * fl32 (fl32 (?P * ?P) / fl32 (fl32 (?P + ?P) + K_epsilon32))))"
    unfolding f1_float32_def precision32_def recall32_def c Let_def by simp
  then show ?thesis unfolding smoothed32_single f1_tail32_single .
qed

text \<open>
  Claim C5, as stated: \<open>f1\<close> returns exactly 1 on every all-positive batch that the rounded
  predictions match. It fails on the batch of the single label 1 predicted as 1: precision
  and recall are \<open>1 / (1 + \<epsilon>)\<close>, and the result is below 1 in binary32 as in exact arithmetic.
\<close>

theorem f1_all_positive_counterexample:
  "K_round (K_clip [1] 0 1) = [1]
   \<and> f1_float32 [1] [1] = Inr (16777213 / 16777216)
   \<and> f1_float32 [1] [1] \<noteq> Inr 1
   \<and> f1 [1] [1] \<noteq> Inr 1"
proof -
  have "f1 [1] [1] \<noteq> Inr 1" by (simp add: f1_single_positive)
  then show ?thesis
    by (simp add: f1_float32_single_positive K_round_def K_clip_def round_half_even_one)
qed

subsection \<open>Construction, prediction and evaluation\<close>

lemma get_padded_docs_pos:
  assumes "0 < max_length self"
  shows "\<exists>padded. get_padded_docs self docs = Inr padded \<and> length padded = length docs"
proof -
  have "\<forall>D \<in> set docs. \<exists>r. pad_row (max_length self) Post Pre 0 D = Inr r"
    using assms by (simp add: pad_row_pos)
  then obtain rows where rows: "pad_sequences (max_length self) Post Pre 0 docs = Inr rows"
    using pad_sequences_total by blast
  with pad_sequences_Inr_nth [OF rows] show ?thesis
    by (simp add: get_padded_docs_def)
qed

lemma get_padded_docs_length:
  "get_padded_docs self docs = Inr padded \<Longrightarrow> length padded = length docs"
  using pad_sequences_Inr_nth [of "max_length self" Post Pre 0 docs padded]
  by (simp add: get_padded_docs_def)

lemma max_length_init [simp]: "max_length (UrlDetector_init B name v m) = m"
  by (simp add: UrlDetector_init_def build_model_def build_simple_nn_def build_big_conv_nn_def)

lemma model_init_simple_nn:
  "model (UrlDetector_init B ''simple_nn'' v m) =
     \<lparr>klass = Sequential,
      layers = [Embedding v 32 m, Flatten, Dense 1 Sigmoid],
      compiled = Some \<lparr>optimizer = ''adam'', loss = ''binary_crossentropy'', metrics = [''acc'']\<rparr>,
      weights = initial_weights B [Embedding v 32 m, Flatten, Dense 1 Sigmoid]\<rparr>"
  by (simp add: UrlDetector_init_def build_model_def build_simple_nn_def simple_nn_layers_def)

lemma klass_init_big_conv_nn: "klass (model (UrlDetector_init B ''big_conv_nn'' v m)) = Model"
  by (simp add: UrlDetector_init_def build_model_def build_big_conv_nn_def)

lemma compiled_init_big_conv_nn:
  "compiled (model (UrlDetector_init B ''big_conv_nn'' v m)) =
     Some \<lparr>optimizer = ''adam'', loss = ''binary_crossentropy'', metrics = [''acc'', ''f1'']\<rparr>"
  by (simp add: UrlDetector_init_def build_model_def build_big_conv_nn_def)

lemma sigmoid_unit_interval: "0 \<le> activate Sigmoid v \<and> activate Sigmoid v \<le> 1"
proof -
  have "0 < exp (- v)" by simp
  then have "1 \<le> 1 + exp (- v)" and "0 < 1 + exp (- v)" by linarith+
  then show ?thesis by (simp add: activate_def divide_le_eq_1)
qed

lemma predict_proba_simple_nn:
  assumes "0 < m"
  shows "\<exists>ps. predict_proba B (UrlDetector_init B ''simple_nn'' v m) docs = Inr ps
           \<and> length ps = length docs \<and> (\<forall>p \<in> set ps. 0 \<le> p \<and> p \<le> 1)"
proof -
  let ?self = "UrlDetector_init B ''simple_nn'' v m"
  obtain padded where p: "get_padded_docs ?self docs = Inr padded" "length padded = length docs"
    using get_padded_docs_pos [of ?self docs] assms by auto
  have "predict_proba B ?self docs = Inr (map (forward B (model ?self)) padded)"
    by (simp add: predict_proba_def p keras_predict_proba_def model_init_simple_nn)
  moreover have "\<forall>x. 0 \<le> forward B (model ?self) x \<and> forward B (model ?self) x \<le> 1"
    using sigmoid_unit_interval
    by (simp add: forward_def model_init_simple_nn final_activation_def)
  ultimately show ?thesis using p(2) by auto
qed

lemma predict_proba_big_conv_nn:
  assumes "0 < m"
  shows "predict_proba B (UrlDetector_init B ''big_conv_nn'' v m) docs = Inl NoSuchMethod"
proof -
  let ?self = "UrlDetector_init B ''big_conv_nn'' v m"
  obtain padded where p: "get_padded_docs ?self docs = Inr padded"
    using get_padded_docs_pos [of ?self docs] assms by auto
  show ?thesis
    by (simp add: predict_proba_def p keras_predict_proba_def klass_init_big_conv_nn)
qed

text \<open>
  Claim C6: \<open>predict_proba\<close> returns one probability in the unit interval per document, for
  both architectures. It holds for \<open>simple_nn\<close> (\<open>predict_proba_simple_nn\<close>); for
  \<open>big_conv_nn\<close> the call raises instead of returning, because the functional \<open>Model\<close> has no
  method \<open>predict_proba\<close>.
\<close>

theorem predict_proba_big_conv_nn_fails:
  "predict_proba zero_backend (UrlDetector_init zero_backend ''big_conv_nn'' 87 200) [[1, 2, 3]]
     = Inl NoSuchMethod"
  by (rule predict_proba_big_conv_nn) simp

text \<open>
  Claim C8: for a name other than \<open>simple_nn\<close> and \<open>big_conv_nn\<close>, \<open>build_model\<close> returns the
  detector unchanged, and the constructor leaves the empty \<open>Sequential()\<close> in place: no
  layers, not compiled.
\<close>

theorem build_model_unrecognized:
  assumes "name \<noteq> ''simple_nn''" and "name \<noteq> ''big_conv_nn''"
  shows "build_model B name self = self
    \<and> UrlDetector_init B name v m = \<lparr>max_length = m, vocab_size = v, model = Sequential_empty\<rparr>
    \<and> layers (model (UrlDetector_init B name v m)) = []
    \<and> compiled (model (UrlDetector_init B name v m)) = None"
  using assms by (simp add: build_model_def UrlDetector_init_def Sequential_empty_def)

theorem build_model_unrecognized_witness:
  "build_model zero_backend ''resnet'' \<lparr>max_length = 200, vocab_size = 87, model = Sequential_empty\<rparr>
     = \<lparr>max_length = 200, vocab_size = 87, model = Sequential_empty\<rparr>
   \<and> UrlDetector_init zero_backend ''resnet'' 87 200
     = \<lparr>max_length = 200, vocab_size = 87, model = Sequential_empty\<rparr>"
proof -
  have h1: "''resnet'' \<noteq> ''simple_nn''" by simp
  have h2: "''resnet'' \<noteq> ''big_conv_nn''" by simp
  show ?thesis using build_model_unrecognized [OF h1 h2] by simp
qed

lemma keras_evaluate_Inr:
  "keras_evaluate B km x y = Inr r \<Longrightarrow>
     \<exists>c. compiled km = Some c \<and>
       (case r of Scalar s \<Rightarrow> metrics c = [] | Values vs \<Rightarrow> length vs = Suc (length (metrics c)) \<and> metrics c \<noteq> [])"
  by (auto simp: keras_evaluate_def Let_def split: option.splits if_splits list.splits)

lemma evaluate_Inr_metrics:
  assumes "evaluate B self docs labels = Inr out"
  shows "\<exists>c. compiled (model self) = Some c \<and> length (metrics c) = 2"
proof -
  from assms obtain padded l a f where
    "keras_evaluate B (model self) padded labels = Inr (Values [l, a, f])"
    by (auto simp: evaluate_def split: sum.splits eval_result.splits list.splits)
  from keras_evaluate_Inr [OF this] show ?thesis by auto
qed

lemma evaluate_simple_nn_never:
  "evaluate B (UrlDetector_init B ''simple_nn'' v m) docs labels \<noteq> Inr out"
proof
  assume "evaluate B (UrlDetector_init B ''simple_nn'' v m) docs labels = Inr out"
  from evaluate_Inr_metrics [OF this] show False
    by (simp add: model_init_simple_nn)
qed

text \<open>
  Claim C10: \<open>evaluate\<close> unpacks the evaluation result into exactly three values. With the
  padding succeeding and the labels aligned, a \<open>simple_nn\<close> detector fails on the unpacking
  and a \<open>big_conv_nn\<close> detector prints its two lines; a \<open>simple_nn\<close> detector never prints,
  whatever the input; and any detector that prints was compiled with exactly two metrics.
\<close>

theorem evaluate_needs_three_values:
  assumes "0 < m" and "length labels = length docs"
  shows "evaluate B (UrlDetector_init B ''simple_nn'' v m) docs labels = Inl UnpackError
    \<and> (\<exists>a f. evaluate B (UrlDetector_init B ''big_conv_nn'' v m) docs labels
               = Inr [Accuracy_line a, F1_score_line f])
    \<and> (\<forall>docs' labels' out. evaluate B (UrlDetector_init B ''simple_nn'' v m) docs' labels' \<noteq> Inr out)
    \<and> (\<forall>self out. evaluate B self docs labels = Inr out \<longrightarrow>
          (\<exists>c. compiled (model self) = Some c \<and> length (metrics c) = 2))"
proof -
  let ?s = "UrlDetector_init B ''simple_nn'' v m"
  let ?b = "UrlDetector_init B ''big_conv_nn'' v m"
  obtain ps where ps: "get_padded_docs ?s docs = Inr ps" "length ps = length docs"
    using get_padded_docs_pos [of ?s docs] assms(1) by auto
  obtain pb where pb: "get_padded_docs ?b docs = Inr pb" "length pb = length docs"
    using get_padded_docs_pos [of ?b docs] assms(1) by auto
  have 1: "evaluate B ?s docs labels = Inl UnpackError"
    using assms(2) by (simp add: evaluate_def ps keras_evaluate_def model_init_simple_nn)
  have 2: "\<exists>a f. evaluate B ?b docs labels = Inr [Accuracy_line a, F1_score_line f]"
    using assms(2) by (simp add: evaluate_def pb keras_evaluate_def compiled_init_big_conv_nn)
  show ?thesis
    using 1 2 evaluate_simple_nn_never evaluate_Inr_metrics by blast
qed

theorem evaluate_needs_three_values_witness:
  "evaluate zero_backend (UrlDetector_init zero_backend ''simple_nn'' 87 4) [[1, 2], [3]] [0, 1]
     = Inl UnpackError
   \<and> (\<exists>a f. evaluate zero_backend (UrlDetector_init zero_backend ''big_conv_nn'' 87 4) [[1, 2], [3]] [0, 1]
         = Inr [Accuracy_line a, F1_score_line f])
   \<and> (\<exists>c. compiled (model (UrlDetector_init zero_backend ''big_conv_nn'' 87 4)) = Some c
         \<and> length (metrics c) = 2)"
proof -
  have h1: "(0::nat) < 4" by simp
  have h2: "length [0, 1 :: real] = length [[1, 2], [3 :: int]]" by simp
  show ?thesis using evaluate_needs_three_values [OF h1 h2] by blast
qed

subsection \<open>Training\<close>


lemma split_at_fifth: "split_at n (2 / 10) = 4 * n div 5"
proof -
  have e: "real n * (1 - 2 / 10) = real (4 * n) / real 5" by simp
  show ?thesis unfolding split_at_def e floor_divide_of_nat_eq by simp
qed

lemma fit_loop_Suc_fst:
  "fst (fit_loop B ls c tr va e (Suc k) w)
     = fst (fit_loop B ls c tr va (Suc e) k (train_epoch B ls c w tr))"
  by (simp add: Let_def case_prod_beta)

lemma fit_loop_Suc_snd:
  "snd (fit_loop B ls c tr va e (Suc k) w)
     = \<lparr>step = e, scalars = epoch_logs B ls c w (train_epoch B ls c w tr) tr va\<rparr>
         # snd (fit_loop B ls c tr va (Suc e) k (train_epoch B ls c w tr))"
  by (simp add: Let_def case_prod_beta)

lemma fit_loop_length: "length (snd (fit_loop B ls c tr va e k w)) = k"
proof (induction k arbitrary: e w)
  case 0
  show ?case by simp
next
  case (Suc k)
  show ?case unfolding fit_loop_Suc_snd by (simp add: Suc.IH)
qed

lemma fit_loop_steps: "map step (snd (fit_loop B ls c tr va e k w)) = [e..<e + k]"
proof (induction k arbitrary: e w)
  case 0
  show ?case by simp
next
  case (Suc k)
  show ?case unfolding fit_loop_Suc_snd by (simp add: Suc.IH upt_rec)
qed

lemma fit_loop_weights:
  "fst (fit_loop B ls c tr va e k w) = ((\<lambda>u. train_epoch B ls c u tr) ^^ k) w"
proof (induction k arbitrary: e w)
  case 0
  show ?case by simp
next
  case (Suc k)
  show ?case unfolding fit_loop_Suc_fst Suc.IH
    using funpow_swap1 [of "\<lambda>u. train_epoch B ls c u tr" k w] by simp
qed

lemma epoch_logs_names:
  "tr \<noteq> [] \<Longrightarrow> dom (epoch_logs B ls c w w' tr va)
     = set (''loss'' # metrics c) \<union> (\<lambda>l. ''val_'' @ l) ` set (''loss'' # metrics c)"
  by (auto simp: epoch_logs_def dom_map_of_conv_image_fst image_Un image_image)

lemma fit_loop_names:
  "tr \<noteq> [] \<Longrightarrow> s \<in> set (snd (fit_loop B ls c tr va e k w)) \<Longrightarrow>
     dom (scalars s) = set (''loss'' # metrics c) \<union> (\<lambda>l. ''val_'' @ l) ` set (''loss'' # metrics c)"
proof (induction k arbitrary: e w)
  case 0
  then show ?case by simp
next
  case (Suc k)
  from Suc.prems(2) consider
      "s = \<lparr>step = e, scalars = epoch_logs B ls c w (train_epoch B ls c w tr) tr va\<rparr>"
    | "s \<in> set (snd (fit_loop B ls c tr va (Suc e) k (train_epoch B ls c w tr)))"
    unfolding fit_loop_Suc_snd by auto
  then show ?case
  proof cases
    case 1
    then have "scalars s = epoch_logs B ls c w (train_epoch B ls c w tr) tr va" by simp
    then show ?thesis using epoch_logs_names [OF Suc.prems(1)] by simp
  next
    case 2
    then show ?thesis by (rule Suc.IH [OF Suc.prems(1)])
  qed
qed

lemma split_at_fifth': "split_at n (1 / 5) = 4 * n div 5"
  using split_at_fifth [of n] by simp

lemma train_iter_swap:
  "((\<lambda>u. train_epoch B ls c u tr) ^^ j) (train_epoch B ls c w tr)
     = train_epoch B ls c (((\<lambda>u. train_epoch B ls c u tr) ^^ j) w) tr"
  using funpow_swap1 [of "\<lambda>u. train_epoch B ls c u tr" j w] by simp

lemma fit_loop_nth:
  "i < k \<Longrightarrow>
   snd (fit_loop B ls c tr va e k w) ! i =
     \<lparr>step = e + i,
      scalars = epoch_logs B ls c (((\<lambda>u. train_epoch B ls c u tr) ^^ i) w)
                  (((\<lambda>u. train_epoch B ls c u tr) ^^ Suc i) w) tr va\<rparr>"
proof (induction k arbitrary: e w i)
  case 0
  then show ?case by simp
next
  case (Suc k)
  show ?case
  proof (cases i)
    case 0
    then show ?thesis unfolding fit_loop_Suc_snd by simp
  next
    case (Suc j)
    then have j: "j < k" using Suc.prems by simp
    show ?thesis
      unfolding fit_loop_Suc_snd Suc
      using Suc.IH [OF j, of "Suc e" "train_epoch B ls c w tr"]
      by (simp add: train_iter_swap)
  qed
qed

lemma map_of_prefixed:
  "l \<in> set names \<Longrightarrow> map_of (map (\<lambda>l. (p @ l, g l)) names) (p @ l) = Some (g l)"
  by (induction names) auto

lemma epoch_logs_train:
  assumes "tr \<noteq> []" and "l \<in> set (''loss'' # metrics c)"
  shows "epoch_logs B ls c w w' tr va l = Some (train_scalar B ls c w tr l)"
proof -
  have "map_of (map (\<lambda>l. (l, train_scalar B ls c w tr l)) (''loss'' # metrics c)) l
          = Some (train_scalar B ls c w tr l)"
    using map_of_prefixed [OF assms(2), of "[]" "train_scalar B ls c w tr"] by simp
  then show ?thesis
    using assms(1) unfolding epoch_logs_def by (simp only: map_of_append map_add_Some_iff if_False) simp
qed

lemma epoch_logs_val:
  assumes "tr \<noteq> []" and "l \<in> set (''loss'' # metrics c)"
    and "''val_'' @ l \<notin> set (''loss'' # metrics c)"
  shows "epoch_logs B ls c w w' tr va (''val_'' @ l) = Some (test_scalar B ls c w' va l)"
proof -
  have n: "map_of (map (\<lambda>l. (l, train_scalar B ls c w tr l)) (''loss'' # metrics c)) (''val_'' @ l)
          = None"
    using assms(3) by (simp only: map_of_eq_None_iff) (auto simp: image_iff)
  have v: "map_of (map (\<lambda>l. (''val_'' @ l, test_scalar B ls c w' va l)) (''loss'' # metrics c))
            (''val_'' @ l) = Some (test_scalar B ls c w' va l)"
    by (rule map_of_prefixed [OF assms(2)])
  show ?thesis
    using assms(1) n v unfolding epoch_logs_def
    by (simp only: map_of_append map_add_Some_iff if_False) simp
qed


lemma log_directory_ready:
  assumes "os_path_exists W p \<or> (p \<noteq> [] \<and> creatable W p)"
  shows "(if \<not> os_path_exists W p then os_makedirs W p else Inr W)
           = Inr (W\<lparr>dirs := insert p (dirs W)\<rparr>)"
  using assms by (auto simp: os_path_exists_def os_makedirs_def insert_absorb)

text \<open>
  Claim C9, amended: for a compiled detector, at least two documents with aligned labels, and
  a log directory that exists or can be made, \<open>fit\<close> returns normally and the log directory
  exists afterwards. With \<open>n\<close> samples, the training set is the first \<open>4 n div 5\<close> samples and
  the validation set the remaining last \<open>(n + 4) div 5\<close>, in the given order: a fifth rounded
  up to whole samples, a deterministic tail slice. The optimizer runs \<open>epochs\<close> epochs on the
  training set. One summary per epoch, numbered from 0, is appended under the log directory;
  its scalars are the loss and the metrics measured on the training set while the epoch
  trains, and their \<open>val_\<close> counterparts measured on the validation set with the weights the
  epoch ends on.
\<close>

theorem fit_validation_tail:
  fixes B :: backend and self :: UrlDetector and docs :: "int list list"
  defines "k \<equiv> 4 * length docs div 5"
  assumes "compiled (model self) = Some c"
    and "get_padded_docs self docs = Inr padded"
    and "length labels = length docs"
    and "2 \<le> length docs"
    and "os_path_exists W training_logs \<or> (training_logs \<noteq> [] \<and> creatable W training_logs)"
  shows "\<exists>ss.
      fit B self W docs labels epochs training_logs =
        (None,
         self\<lparr>model := (model self)\<lparr>weights :=
           ((\<lambda>u. train_epoch B (layers (model self)) c u (take k (zip padded labels))) ^^ epochs)
             (weights (model self))\<rparr>\<rparr>,
         W\<lparr>dirs := insert training_logs (dirs W),
           event_log := (event_log W)(training_logs := event_log W training_logs @ ss)\<rparr>)
    \<and> length ss = epochs
    \<and> (\<forall>e < epochs.
          step (ss ! e) = e
          \<and> dom (scalars (ss ! e))
              = set (''loss'' # metrics c) \<union> (\<lambda>l. ''val_'' @ l) ` set (''loss'' # metrics c)
          \<and> (\<forall>l \<in> set (''loss'' # metrics c).
                scalars (ss ! e) l =
                  Some (train_scalar B (layers (model self)) c
                         (((\<lambda>u. train_epoch B (layers (model self)) c u (take k (zip padded labels))) ^^ e)
                            (weights (model self)))
                         (take k (zip padded labels)) l)
                \<and> (''val_'' @ l \<notin> set (''loss'' # metrics c) \<longrightarrow>
                     scalars (ss ! e) (''val_'' @ l) =
                       Some (test_scalar B (layers (model self)) c
                              (((\<lambda>u. train_epoch B (layers (model self)) c u (take k (zip padded labels)))
                                  ^^ Suc e) (weights (model self)))
                              (drop k (zip padded labels)) l))))
    \<and> take k (zip padded labels) @ drop k (zip padded labels) = zip padded labels
    \<and> length (zip padded labels) = length docs
    \<and> length (take k (zip padded labels)) = 4 * length docs div 5
    \<and> length (drop k (zip padded labels)) = (length docs + 4) div 5"
proof -
  let ?data = "zip padded labels"
  let ?tr = "take k ?data" and ?va = "drop k ?data"
  let ?ls = "layers (model self)"
  let ?T = "\<lambda>u. train_epoch B ?ls c u ?tr"
  let ?names = "''loss'' # metrics c"
  let ?r = "fit_loop B ?ls c ?tr ?va 0 epochs (weights (model self))"
  let ?W1 = "W\<lparr>dirs := insert training_logs (dirs W)\<rparr>"
  have lp: "length padded = length docs" by (rule get_padded_docs_length [OF assms(3)])
  have ld: "length ?data = length docs" using lp assms(4) by simp
  have k1: "k \<noteq> 0" using assms(5) unfolding k_def by linarith
  have kn: "k \<le> length docs" unfolding k_def by linarith
  have ltr: "length ?tr = 4 * length docs div 5" using ld kn by (simp add: k_def)
  have trne: "?tr \<noteq> []" using ltr k1 unfolding k_def by auto
  have lva: "length ?va = (length docs + 4) div 5" using ld unfolding k_def by simp
  have parts: "training_part (2 / 10) ?data = ?tr" "validation_part (2 / 10) ?data = ?va"
    unfolding training_part_def validation_part_def split_at_fifth ld k_def by (rule refl)+
  have kf: "keras_fit B (model self) ?W1 padded labels epochs (2 / 10) training_logs
            = (None, (model self)\<lparr>weights := fst ?r\<rparr>,
               W\<lparr>dirs := insert training_logs (dirs W),
                 event_log := (event_log W)(training_logs := event_log W training_logs @ snd ?r)\<rparr>)"
    unfolding keras_fit_def parts Let_def
    using lp assms(4) by (simp add: assms(2) case_prod_beta)
  have "fit B self W docs labels epochs training_logs =
          (case keras_fit B (model self) ?W1 padded labels epochs (2 / 10) training_logs of
             (err, km, W2) \<Rightarrow> (err, self\<lparr>model := km\<rparr>, W2))"
    unfolding fit_def log_directory_ready [OF assms(6)] by (simp add: assms(3))
  then have fit_eq: "fit B self W docs labels epochs training_logs =
        (None,
         self\<lparr>model := (model self)\<lparr>weights := (?T ^^ epochs) (weights (model self))\<rparr>\<rparr>,
         W\<lparr>dirs := insert training_logs (dirs W),
           event_log := (event_log W)(training_logs := event_log W training_logs @ snd ?r)\<rparr>)"
    unfolding kf fit_loop_weights by simp
  have per_epoch: "\<forall>e < epochs.
          step (snd ?r ! e) = e
          \<and> dom (scalars (snd ?r ! e)) = set ?names \<union> (\<lambda>l. ''val_'' @ l) ` set ?names
          \<and> (\<forall>l \<in> set ?names.
                scalars (snd ?r ! e) l =
                  Some (train_scalar B ?ls c ((?T ^^ e) (weights (model self))) ?tr l)
                \<and> (''val_'' @ l \<notin> set ?names \<longrightarrow>
                     scalars (snd ?r ! e) (''val_'' @ l) =
                       Some (test_scalar B ?ls c ((?T ^^ Suc e) (weights (model self))) ?va l)))"
  proof (intro allI impI)
    fix e assume e: "e < epochs"
    note nth = fit_loop_nth [OF e, of B ?ls c ?tr ?va 0 "weights (model self)"]
    have sc: "scalars (snd ?r ! e) =
        epoch_logs B ?ls c ((?T ^^ e) (weights (model self)))
          ((?T ^^ Suc e) (weights (model self))) ?tr ?va"
      unfolding nth by simp
    have st: "step (snd ?r ! e) = e" unfolding nth by simp
    have dm: "dom (scalars (snd ?r ! e)) = set ?names \<union> (\<lambda>l. ''val_'' @ l) ` set ?names"
      unfolding sc by (rule epoch_logs_names [OF trne])
    have lk: "\<forall>l \<in> set ?names.
                scalars (snd ?r ! e) l =
                  Some (train_scalar B ?ls c ((?T ^^ e) (weights (model self))) ?tr l)
                \<and> (''val_'' @ l \<notin> set ?names \<longrightarrow>
                     scalars (snd ?r ! e) (''val_'' @ l) =
                       Some (test_scalar B ?ls c ((?T ^^ Suc e) (weights (model self))) ?va l))"
    proof (intro ballI conjI impI)
      fix l assume l: "l \<in> set ?names"
      show "scalars (snd ?r ! e) l =
              Some (train_scalar B ?ls c ((?T ^^ e) (weights (model self))) ?tr l)"
        unfolding sc by (rule epoch_logs_train [OF trne l])
      assume v: "''val_'' @ l \<notin> set ?names"
      show "scalars (snd ?r ! e) (''val_'' @ l) =
              Some (test_scalar B ?ls c ((?T ^^ Suc e) (weights (model self))) ?va l)"
        unfolding sc by (rule epoch_logs_val [OF trne l v])
    qed
    from st dm lk show "step (snd ?r ! e) = e
          \<and> dom (scalars (snd ?r ! e)) = set ?names \<union> (\<lambda>l. ''val_'' @ l) ` set ?names
          \<and> (\<forall>l \<in> set ?names.
                scalars (snd ?r ! e) l =
                  Some (train_scalar B ?ls c ((?T ^^ e) (weights (model self))) ?tr l)
                \<and> (''val_'' @ l \<notin> set ?names \<longrightarrow>
                     scalars (snd ?r ! e) (''val_'' @ l) =
                       Some (test_scalar B ?ls c ((?T ^^ Suc e) (weights (model self))) ?va l)))"
      by (intro conjI)
  qed
  show ?thesis
  proof (intro exI conjI)
    show "fit B self W docs labels epochs training_logs =
        (None,
         self\<lparr>model := (model self)\<lparr>weights := (?T ^^ epochs) (weights (model self))\<rparr>\<rparr>,
         W\<lparr>dirs := insert training_logs (dirs W),
           event_log := (event_log W)(training_logs := event_log W training_logs @ snd ?r)\<rparr>)"
      by (rule fit_eq)
    show "length (snd ?r) = epochs" by (rule fit_loop_length)
    show "\<forall>e < epochs.
          step (snd ?r ! e) = e
          \<and> dom (scalars (snd ?r ! e)) = set ?names \<union> (\<lambda>l. ''val_'' @ l) ` set ?names
          \<and> (\<forall>l \<in> set ?names.
                scalars (snd ?r ! e) l =
                  Some (train_scalar B ?ls c ((?T ^^ e) (weights (model self))) ?tr l)
                \<and> (''val_'' @ l \<notin> set ?names \<longrightarrow>
                     scalars (snd ?r ! e) (''val_'' @ l) =
                       Some (test_scalar B ?ls c ((?T ^^ Suc e) (weights (model self))) ?va l)))"
      by (rule per_epoch)
    show "?tr @ ?va = ?data" by (rule append_take_drop_id)
    show "length ?data = length docs" by (rule ld)
    show "length ?tr = 4 * length docs div 5" by (rule ltr)
    show "length ?va = (length docs + 4) div 5" by (rule lva)
  qed
qed



theorem fit_validation_tail_witness:
  "\<exists>ss.
      fit counting_backend (UrlDetector_init counting_backend ''simple_nn'' 87 2)
          \<lparr>dirs = {}, creatable = (\<lambda>p. True), event_log = (\<lambda>d. [])\<rparr>
          [[1], [2], [3], [4], [5, 6, 7]] [0, 1, 0, 1, 1] 2 ''training_logs''
        = (None,
           UrlDetector_init counting_backend ''simple_nn'' 87 2,
           \<lparr>dirs = {''training_logs''}, creatable = (\<lambda>p. True),
            event_log = (\<lambda>d. [])(''training_logs'' := ss)\<rparr>)
    \<and> length ss = 2
    \<and> step (ss ! 0) = 0 \<and> step (ss ! 1) = 1
    \<and> dom (scalars (ss ! 1)) = {''loss'', ''acc'', ''val_loss'', ''val_acc''}
    \<and> scalars (ss ! 1) ''loss'' = Some 4
    \<and> scalars (ss ! 1) ''val_loss'' = Some 1
    \<and> drop 4 (zip [[1, 0], [2, 0], [3, 0], [4, 0], [6, 7]] [0, 1, 0, 1, 1 :: real]) = [([6, 7], 1)]"
proof -
  let ?B = counting_backend
  let ?self = "UrlDetector_init ?B ''simple_nn'' 87 2"
  let ?c = "\<lparr>optimizer = ''adam'', loss = ''binary_crossentropy'', metrics = [''acc'']\<rparr>"
  let ?docs = "[[1], [2], [3], [4], [5, 6, 7 :: int]]"
  let ?padded = "[[1, 0], [2, 0], [3, 0], [4, 0], [6, 7 :: int]]"
  let ?labels = "[0, 1, 0, 1, 1 :: real]"
  let ?W = "\<lparr>dirs = {}, creatable = (\<lambda>p. True), event_log = (\<lambda>d. [])\<rparr> :: world"
  have h1: "compiled (model ?self) = Some ?c" by (simp add: model_init_simple_nn)
  have h2: "get_padded_docs ?self ?docs = Inr ?padded"
    by (simp add: get_padded_docs_def pad_row_pos)
  have h3: "length ?labels = length ?docs" by simp
  have h4: "2 \<le> length ?docs" by simp
  have h5: "os_path_exists ?W ''training_logs'' \<or> (''training_logs'' \<noteq> [] \<and> creatable ?W ''training_logs'')"
    by simp
  have k: "4 * length ?docs div 5 = 4" by simp
  have w: "\<And>n tr. ((\<lambda>u. train_epoch ?B (layers (model ?self)) ?c u tr) ^^ n) (weights (model ?self))
             = weights (model ?self)"
    by (induct_tac n) (simp_all add: counting_backend_def)
  from fit_validation_tail [OF h1 h2 h3 h4 h5, of ?B 2] obtain ss where
    f: "fit ?B ?self ?W ?docs ?labels 2 ''training_logs'' =
          (None,
           ?self\<lparr>model := (model ?self)\<lparr>weights :=
             ((\<lambda>u. train_epoch ?B (layers (model ?self)) ?c u
                     (take (4 * length ?docs div 5) (zip ?padded ?labels))) ^^ 2)
               (weights (model ?self))\<rparr>\<rparr>,
           ?W\<lparr>dirs := insert ''training_logs'' (dirs ?W),
              event_log := (event_log ?W)(''training_logs'' := event_log ?W ''training_logs'' @ ss)\<rparr>)"
    and len: "length ss = 2"
    and pe: "\<forall>e < 2.
          step (ss ! e) = e
          \<and> dom (scalars (ss ! e))
              = set (''loss'' # metrics ?c) \<union> (\<lambda>l. ''val_'' @ l) ` set (''loss'' # metrics ?c)
          \<and> (\<forall>l \<in> set (''loss'' # metrics ?c).
                scalars (ss ! e) l =
                  Some (train_scalar ?B (layers (model ?self)) ?c
                         (((\<lambda>u. train_epoch ?B (layers (model ?self)) ?c u
                                 (take (4 * length ?docs div 5) (zip ?padded ?labels))) ^^ e)
                            (weights (model ?self)))
                         (take (4 * length ?docs div 5) (zip ?padded ?labels)) l)
                \<and> (''val_'' @ l \<notin> set (''loss'' # metrics ?c) \<longrightarrow>
                     scalars (ss ! e) (''val_'' @ l) =
                       Some (test_scalar ?B (layers (model ?self)) ?c
                              (((\<lambda>u. train_epoch ?B (layers (model ?self)) ?c u
                                      (take (4 * length ?docs div 5) (zip ?padded ?labels)))
                                  ^^ Suc e) (weights (model ?self)))
                              (drop (4 * length ?docs div 5) (zip ?padded ?labels)) l)))"
    by blast
  have f': "fit ?B ?self ?W ?docs ?labels 2 ''training_logs'' =
        (None, ?self,
         \<lparr>dirs = {''training_logs''}, creatable = (\<lambda>p. True),
          event_log = (\<lambda>d. [])(''training_logs'' := ss)\<rparr>)"
    unfolding f w by simp
  from pe have e0: "step (ss ! 0) = 0" by simp
  from pe have e1: "step (ss ! 1) = 1"
    and d1: "dom (scalars (ss ! 1))
              = set (''loss'' # metrics ?c) \<union> (\<lambda>l. ''val_'' @ l) ` set (''loss'' # metrics ?c)"
    and l1: "\<forall>l \<in> set (''loss'' # metrics ?c).
                scalars (ss ! 1) l =
                  Some (train_scalar ?B (layers (model ?self)) ?c
                         (((\<lambda>u. train_epoch ?B (layers (model ?self)) ?c u
                                 (take (4 * length ?docs div 5) (zip ?padded ?labels))) ^^ 1)
                            (weights (model ?self)))
                         (take (4 * length ?docs div 5) (zip ?padded ?labels)) l)
                \<and> (''val_'' @ l \<notin> set (''loss'' # metrics ?c) \<longrightarrow>
                     scalars (ss ! 1) (''val_'' @ l) =
                       Some (test_scalar ?B (layers (model ?self)) ?c
                              (((\<lambda>u. train_epoch ?B (layers (model ?self)) ?c u
                                      (take (4 * length ?docs div 5) (zip ?padded ?labels)))
                                  ^^ Suc 1) (weights (model ?self)))
                              (drop (4 * length ?docs div 5) (zip ?padded ?labels)) l))"
    by simp_all
  have d1': "dom (scalars (ss ! 1)) = {''loss'', ''acc'', ''val_loss'', ''val_acc''}"
    unfolding d1 by auto
  from l1 have "scalars (ss ! 1) ''loss'' = Some 4 \<and> scalars (ss ! 1) ''val_loss'' = Some 1"
    unfolding k by (simp add: counting_backend_def)
  with f' len e0 e1 d1' show ?thesis
    by (intro exI [of _ ss]) simp
qed


lemma counting_backend_sel:
  "train_epoch counting_backend ls c w samples = w"
  "train_scalar counting_backend ls c w samples name = real (length samples)"
  "test_scalar counting_backend ls c w samples name = real (length samples)"
  by (simp_all add: counting_backend_def)

lemma fit_three_samples:
  "fit counting_backend (UrlDetector_init counting_backend ''simple_nn'' 87 2)
       \<lparr>dirs = {}, creatable = (\<lambda>p. True), event_log = (\<lambda>d. [])\<rparr>
       [[1], [2], [3]] [0, 1, 0] 1 ''training_logs''
     = (None,
        UrlDetector_init counting_backend ''simple_nn'' 87 2,
        \<lparr>dirs = {''training_logs''}, creatable = (\<lambda>p. True),
         event_log = (\<lambda>d. [])(''training_logs'' :=
           [\<lparr>step = 0,
             scalars = [''loss'' \<mapsto> 2, ''acc'' \<mapsto> 2, ''val_loss'' \<mapsto> 1, ''val_acc'' \<mapsto> 1]\<rparr>])\<rparr>)"
proof -
  have p: "get_padded_docs (UrlDetector_init counting_backend ''simple_nn'' 87 2) [[1], [2], [3]]
             = Inr [[1, 0], [2, 0], [3, 0]]"
    by (simp add: get_padded_docs_def pad_row_pos)
  have m: "[''loss'' \<mapsto> 2, ''acc'' \<mapsto> 2, ''val_loss'' \<mapsto> 1, ''val_acc'' \<mapsto> (1::real)]
             = map_of [(''loss'', 2), (''acc'', 2), (''val_loss'', 1), (''val_acc'', 1)]"
    by (rule ext) simp
  show ?thesis
    unfolding m
    by (simp add: fit_def os_path_exists_def os_makedirs_def p keras_fit_def
        model_init_simple_nn training_part_def validation_part_def split_at_fifth'
        epoch_logs_def counting_backend_sel Let_def)
qed

lemma fit_one_sample:
  "fit counting_backend (UrlDetector_init counting_backend ''simple_nn'' 87 2)
       \<lparr>dirs = {}, creatable = (\<lambda>p. True), event_log = (\<lambda>d. [])\<rparr>
       [[1]] [0] 1 ''training_logs''
     = (None,
        UrlDetector_init counting_backend ''simple_nn'' 87 2,
        \<lparr>dirs = {''training_logs''}, creatable = (\<lambda>p. True),
         event_log = (\<lambda>d. [])(''training_logs'' := [\<lparr>step = 0, scalars = Map.empty\<rparr>])\<rparr>)"
proof -
  have p: "get_padded_docs (UrlDetector_init counting_backend ''simple_nn'' 87 2) [[1]]
             = Inr [[1, 0]]"
    by (simp add: get_padded_docs_def pad_row_pos)
  show ?thesis
    by (simp add: fit_def os_path_exists_def os_makedirs_def p keras_fit_def
        model_init_simple_nn training_part_def validation_part_def split_at_fifth'
        epoch_logs_def counting_backend_sel Let_def)
qed

lemma fit_empty_log_directory:
  "fit B self W docs labels epochs '''' = (Some OSError, self, W)"
  by (simp add: fit_def os_path_exists_def os_makedirs_def)

text \<open>
  Claim C9, as stated: every call validates on exactly the last 20 percent of the samples,
  trains on the first 80 percent, and emits scalar summaries each epoch under a log directory
  it creates if absent. With three samples the validation set is one sample, a third of
  them (the counting backend reports \<open>val_loss = 1\<close> and \<open>loss = 2\<close>); with one sample the
  training set is empty and the summary of the epoch holds no scalar; with the empty path as
  log directory \<^verbatim>\<open>os.makedirs\<close> raises and nothing is trained.
\<close>

theorem fit_validation_tail_counterexample:
  "(let R = fit counting_backend (UrlDetector_init counting_backend ''simple_nn'' 87 2)
              \<lparr>dirs = {}, creatable = (\<lambda>p. True), event_log = (\<lambda>d. [])\<rparr>
              [[1], [2], [3]] [0, 1, 0] 1 ''training_logs''
    in fst R = None
       \<and> map (\<lambda>s. (scalars s ''loss'', scalars s ''val_loss'')) (event_log (snd (snd R)) ''training_logs'')
           = [(Some 2, Some 1)])
   \<and> validation_part (2 / 10) (zip [[1, 0], [2, 0], [3, 0 :: int]] [0, 1, 0 :: real]) = [([3, 0], 0)]
   \<and> 5 * length (validation_part (2 / 10) (zip [[1, 0], [2, 0], [3, 0 :: int]] [0, 1, 0 :: real]))
       \<noteq> length [[1], [2], [3 :: int]]
   \<and> (let R = fit counting_backend (UrlDetector_init counting_backend ''simple_nn'' 87 2)
                \<lparr>dirs = {}, creatable = (\<lambda>p. True), event_log = (\<lambda>d. [])\<rparr>
                [[1]] [0] 1 ''training_logs''
      in map (\<lambda>s. dom (scalars s)) (event_log (snd (snd R)) ''training_logs'') = [{}])
   \<and> fit counting_backend (UrlDetector_init counting_backend ''simple_nn'' 87 2)
          \<lparr>dirs = {}, creatable = (\<lambda>p. True), event_log = (\<lambda>d. [])\<rparr>
          [[1], [2], [3]] [0, 1, 0] 1 ''''
       = (Some OSError, UrlDetector_init counting_backend ''simple_nn'' 87 2,
          \<lparr>dirs = {}, creatable = (\<lambda>p. True), event_log = (\<lambda>d. [])\<rparr>)"
  unfolding fit_three_samples fit_one_sample fit_empty_log_directory Let_def
  by (simp add: validation_part_def split_at_fifth')

end
